theory Spec2Isabelle
  imports Main "HOL-Library.Word"
begin

section \<open>Strings\<close>

text \<open>
  A JavaScript string is a sequence of UTF-16 code units.  None of the regular
  expressions of the source carries the \<^verbatim>\<open>u\<close> flag, so they all match code unit by
  code unit.  \<open>js\<close> turns an ASCII literal of the source into its code units.
\<close>

type_synonym code_unit = "16 word"
type_synonym jsstring = "code_unit list"

definition js :: "string \<Rightarrow> jsstring" where
  "js s = map of_char s"

text \<open>
  The class \<^verbatim>\<open>\s\<close> of a regular expression and the characters removed by
  \<^verbatim>\<open>String.prototype.trim\<close> are the same set: WhiteSpace and LineTerminator of ECMA-262
  (TAB, LF, VT, FF, CR, SP, NBSP, U+1680, U+2000..U+200A, U+2028, U+2029, U+202F, U+205F,
  U+3000, U+FEFF).  The class \<^verbatim>\<open>\d\<close> is \<^verbatim>\<open>[0-9]\<close>.
\<close>

definition is_space :: "code_unit \<Rightarrow> bool" where
  "is_space c =
     (c = 0x09 \<or> c = 0x0A \<or> c = 0x0B \<or> c = 0x0C \<or> c = 0x0D \<or> c = 0x20 \<or> c = 0xA0 \<or>
      c = 0x1680 \<or> (0x2000 \<le> c \<and> c \<le> 0x200A) \<or> c = 0x2028 \<or> c = 0x2029 \<or>
      c = 0x202F \<or> c = 0x205F \<or> c = 0x3000 \<or> c = 0xFEFF)"

definition is_digit :: "code_unit \<Rightarrow> bool" where
  "is_digit c = (0x30 \<le> c \<and> c \<le> 0x39)"

definition trim :: "jsstring \<Rightarrow> jsstring" where
  "trim s = rev (dropWhile is_space (rev (dropWhile is_space s)))"

text \<open>
  Under the \<^verbatim>\<open>i\<close> flag (without \<^verbatim>\<open>u\<close>) two code units match when their canonical forms
  agree.  Canonicalisation is upper-casing, except that a code unit above 127 is never mapped
  to an ASCII one; every literal character of the two case-insensitive patterns of the source
  is ASCII, so only the ASCII letters matter: a pattern letter matches exactly its upper-case
  and its lower-case form, any other pattern character only itself.
\<close>

definition Canonicalize :: "code_unit \<Rightarrow> code_unit" where
  "Canonicalize c = (if 0x61 \<le> c \<and> c \<le> 0x7A then c - 0x20 else c)"

definition ci_unit :: "code_unit \<Rightarrow> code_unit \<Rightarrow> bool" where
  "ci_unit p c = (Canonicalize p = Canonicalize c)"

text \<open>A literal of a case-insensitive pattern, matched at the start of \<open>s\<close>: the rest of \<open>s\<close>.\<close>

fun ci_prefix :: "jsstring \<Rightarrow> jsstring \<Rightarrow> jsstring option" where
  "ci_prefix [] s = Some s"
| "ci_prefix (p # ps) [] = None"
| "ci_prefix (p # ps) (c # cs) = (if ci_unit p c then ci_prefix ps cs else None)"

text \<open>
  \<^verbatim>\<open>String.prototype.match\<close> and \<^verbatim>\<open>replace\<close> with a pattern without the \<^verbatim>\<open>g\<close> flag look for
  the leftmost match: the pattern is tried at index 0, 1, ... up to the length of the string,
  and the first index where it matches wins.  \<open>regex_search m s\<close> does this for a pattern
  given by its attempt \<open>m\<close> at one index (applied to the rest of the string from there); the
  result is the text before the match together with what the attempt returned.
\<close>

fun regex_search :: "(jsstring \<Rightarrow> 'a option) \<Rightarrow> jsstring \<Rightarrow> (jsstring \<times> 'a) option" where
  "regex_search m [] = map_option (Pair []) (m [])"
| "regex_search m (c # cs) =
     (case m (c # cs) of
        Some r \<Rightarrow> Some ([], r)
      | None \<Rightarrow> map_option (\<lambda>(pre, r). (c # pre, r)) (regex_search m cs))"

section \<open>The response parser\<close>

text \<open>
  \<^verbatim>\<open>/RATING:\s*(\d)/i\<close> tried at one index: the literal, then as much white space as there is,
  then one digit.  A digit is no white space, so giving back white space never helps and the
  greedy star never backtracks.  The result is the captured digit and the text after the match.
\<close>

definition rating_at :: "jsstring \<Rightarrow> (code_unit \<times> jsstring) option" where
  "rating_at s =
     (case ci_prefix (js ''RATING:'') s of
        None \<Rightarrow> None
      | Some r \<Rightarrow>
          (case dropWhile is_space r of
             [] \<Rightarrow> None
           | d # post \<Rightarrow> if is_digit d then Some (d, post) else None))"

text \<open>
  \<^verbatim>\<open>/ASSESSMENT:\s*([\s\S]+)/i\<close> tried at one index; the result is capture group 1.  The group
  needs one code unit at least and then runs to the end of the text.  When only white space
  follows the literal, the greedy star first takes all of it, the group fails on the empty
  rest, and the star gives back its last code unit, which the group then captures.  When
  nothing follows the literal there is no match at this index.
\<close>

definition assessment_at :: "jsstring \<Rightarrow> jsstring option" where
  "assessment_at s =
     (case ci_prefix (js ''ASSESSMENT:'') s of
        None \<Rightarrow> None
      | Some r \<Rightarrow>
          (if dropWhile is_space r \<noteq> [] then Some (dropWhile is_space r)
           else if r \<noteq> [] then Some [last r]
           else None))"

text \<open>
  Numbers of the parser: \<open>NaN\<close> or an integer.  \<open>parseInt\<close> is ECMA-262's with the radix
  left out: leading white space, a sign, an optional \<^verbatim>\<open>0x\<close> prefix, then the longest run of
  digits; no digit gives \<open>NaN\<close>.  (JavaScript rounds the value to a double and has a negative
  zero; the source calls \<open>parseInt\<close> on one captured decimal digit only.)
\<close>

datatype jsnum = NaN | Num int

definition digit_value :: "code_unit \<Rightarrow> int" where
  "digit_value c = uint c - 0x30"

definition is_hex_digit :: "code_unit \<Rightarrow> bool" where
  "is_hex_digit c = (is_digit c \<or> (0x41 \<le> c \<and> c \<le> 0x46) \<or> (0x61 \<le> c \<and> c \<le> 0x66))"

definition hex_value :: "code_unit \<Rightarrow> int" where
  "hex_value c =
     (if is_digit c then uint c - 0x30
      else if 0x41 \<le> c \<and> c \<le> 0x46 then uint c - 0x37
      else uint c - 0x57)"

definition parseInt :: "jsstring \<Rightarrow> jsnum" where
  "parseInt string =
     (let S = dropWhile is_space string;
          sign = (if S \<noteq> [] \<and> hd S = 0x2D then - 1 else 1);
          S = (if S \<noteq> [] \<and> (hd S = 0x2B \<or> hd S = 0x2D) then tl S else S);
          hex = (take 2 S = js ''0x'' \<or> take 2 S = js ''0X'');
          S = (if hex then drop 2 S else S);
          Z = takeWhile (if hex then is_hex_digit else is_digit) S
      in if Z = [] then NaN
         else Num (sign * (if hex then foldl (\<lambda>a c. 16 * a + hex_value c) 0 Z
                           else foldl (\<lambda>a c. 10 * a + digit_value c) 0 Z)))"

text \<open>\<^verbatim>\<open>Math.max\<close> and \<^verbatim>\<open>Math.min\<close> of two numbers: \<open>NaN\<close> when either is.\<close>

fun Math_max :: "jsnum \<Rightarrow> jsnum \<Rightarrow> jsnum" where
  "Math_max (Num a) (Num b) = Num (max a b)"
| "Math_max _ _ = NaN"

fun Math_min :: "jsnum \<Rightarrow> jsnum \<Rightarrow> jsnum" where
  "Math_min (Num a) (Num b) = Num (min a b)"
| "Math_min _ _ = NaN"

text \<open>
  \<^verbatim>\<open>text.replace(/RATING:\s*\d/i, '')\<close>: the pattern has no \<^verbatim>\<open>g\<close> flag, so the leftmost match
  is cut out and the rest of the text is kept as it is.
\<close>

definition remove_rating :: "jsstring \<Rightarrow> jsstring" where
  "remove_rating text =
     (case regex_search rating_at text of
        None \<Rightarrow> text
      | Some (pre, d, post) \<Rightarrow> pre @ post)"

text \<open>
  \<^verbatim>\<open>assessment.replace(/^\s*[-:]\s*/, '')\<close>: without the \<^verbatim>\<open>m\<close> flag the anchor holds at index 0
  only.  \<open>cleanup_at\<close> is the attempt there (the text after the match), \<open>replace_cleanup\<close>
  the replacement.
\<close>

definition cleanup_at :: "jsstring \<Rightarrow> jsstring option" where
  "cleanup_at s =
     (case dropWhile is_space s of
        [] \<Rightarrow> None
      | c # r \<Rightarrow> if c = 0x2D \<or> c = 0x3A then Some (dropWhile is_space r) else None)"

definition replace_cleanup :: "jsstring \<Rightarrow> jsstring" where
  "replace_cleanup s = (case cleanup_at s of None \<Rightarrow> s | Some post \<Rightarrow> post)"

record AnalysisResult =
  rating :: jsnum
  assessment :: jsstring

text \<open>\<^verbatim>\<open>parseAIResponse\<close> (Groq variant) and \<^verbatim>\<open>parseGeminiResponse\<close> (Gemini variant).\<close>

definition parseAIResponse :: "jsstring \<Rightarrow> AnalysisResult" where
  "parseAIResponse text =
     (let ratingMatch = regex_search rating_at text;
          rating = (case ratingMatch of Some (pre, d, post) \<Rightarrow> parseInt [d] | None \<Rightarrow> Num 3);
          assessmentMatch = regex_search assessment_at text;
          assessment = (case assessmentMatch of
                          Some (pre, capture) \<Rightarrow> trim capture
                        | None \<Rightarrow> trim (remove_rating text));
          assessment = replace_cleanup assessment
      in \<lparr> rating = Math_min (Num 5) (Math_max (Num 1) rating), assessment = assessment \<rparr>)"

definition parseGeminiResponse :: "jsstring \<Rightarrow> AnalysisResult" where
  "parseGeminiResponse text =
     (let ratingMatch = regex_search rating_at text;
          rating = (case ratingMatch of Some (pre, d, post) \<Rightarrow> parseInt [d] | None \<Rightarrow> Num 3);
          assessmentMatch = regex_search assessment_at text;
          assessment = (case assessmentMatch of
                          Some (pre, capture) \<Rightarrow> trim capture
                        | None \<Rightarrow> trim (remove_rating text));
          assessment = replace_cleanup assessment
      in \<lparr> rating = Math_min (Num 5) (Math_max (Num 1) rating), assessment = assessment \<rparr>)"

subsection \<open>What the claims speak of\<close>

text \<open>
  The notions the properties are stated with, independent of the matcher: \<open>m\<close> is a
  case-insensitive copy of the literal \<open>p\<close>; at index \<open>i\<close> of the text stands
  \<^verbatim>\<open>RATING:\<close>, white space, the digit \<open>d\<close> and then \<open>post\<close>; the text has such a place;
  \<open>i\<close> is the first such place; at index \<open>i\<close> stands \<^verbatim>\<open>ASSESSMENT:\<close>; the text has such a
  place.  \<open>strip_one_lead\<close> removes one leading \<^verbatim>\<open>-\<close> or \<^verbatim>\<open>:\<close> and the white space after it.
\<close>

definition ci_equal :: "jsstring \<Rightarrow> jsstring \<Rightarrow> bool" where
  "ci_equal p m = list_all2 ci_unit p m"

definition rating_occurrence :: "jsstring \<Rightarrow> nat \<Rightarrow> code_unit \<Rightarrow> jsstring \<Rightarrow> bool" where
  "rating_occurrence text i d post =
     (\<exists>mk ws. drop i text = mk @ ws @ d # post \<and> ci_equal (js ''RATING:'') mk \<and>
        list_all is_space ws \<and> is_digit d)"

definition has_rating :: "jsstring \<Rightarrow> bool" where
  "has_rating text = (\<exists>i d post. rating_occurrence text i d post)"

definition first_rating :: "jsstring \<Rightarrow> nat \<Rightarrow> code_unit \<Rightarrow> jsstring \<Rightarrow> bool" where
  "first_rating text i d post =
     (rating_occurrence text i d post \<and> (\<forall>j<i. \<forall>d' post'. \<not> rating_occurrence text j d' post'))"

definition marker_at :: "jsstring \<Rightarrow> nat \<Rightarrow> bool" where
  "marker_at text i = (\<exists>mk rest. drop i text = mk @ rest \<and> ci_equal (js ''ASSESSMENT:'') mk)"

definition has_marker :: "jsstring \<Rightarrow> bool" where
  "has_marker text = (\<exists>i. marker_at text i)"

definition strip_one_lead :: "jsstring \<Rightarrow> jsstring" where
  "strip_one_lead s =
     (case s of
        [] \<Rightarrow> []
      | c # r \<Rightarrow> if c = 0x2D \<or> c = 0x3A then dropWhile is_space r else c # r)"

section \<open>JavaScript values\<close>

text \<open>
  The values that \<^verbatim>\<open>JSON.parse\<close> and property reads produce.  A number is kept as its
  canonical rendering (\<^verbatim>\<open>Number::toString\<close>), which is all the source looks at besides its
  truth value: a number is falsy exactly when it renders as \<^verbatim>\<open>0\<close> (both zeros do) or
  \<^verbatim>\<open>NaN\<close>.  An object is the list of its own properties, each key once.
\<close>

datatype jsvalue =
    JUndefined
  | JNull
  | JBool bool
  | JNum jsstring
  | JStr jsstring
  | JArr "jsvalue list"
  | JObj "(jsstring \<times> jsvalue) list"

datatype js_error = Error jsstring | TypeError jsstring | SyntaxError jsstring

fun message :: "js_error \<Rightarrow> jsstring" where
  "message (Error m) = m"
| "message (TypeError m) = m"
| "message (SyntaxError m) = m"

fun ToBoolean :: "jsvalue \<Rightarrow> bool" where
  "ToBoolean JUndefined = False"
| "ToBoolean JNull = False"
| "ToBoolean (JBool b) = b"
| "ToBoolean (JNum t) = (t \<noteq> js ''0'' \<and> t \<noteq> js ''NaN'')"
| "ToBoolean (JStr s) = (s \<noteq> [])"
| "ToBoolean (JArr xs) = True"
| "ToBoolean (JObj kvs) = True"

text \<open>
  \<open>get v k\<close> is the read \<^verbatim>\<open>v.k\<close> of a value that is neither \<^verbatim>\<open>null\<close> nor \<^verbatim>\<open>undefined\<close>, for
  the keys the source reads (\<^verbatim>\<open>name\<close>, \<^verbatim>\<open>brand\<close>, \<^verbatim>\<open>offers\<close>, \<^verbatim>\<open>price\<close>, \<^verbatim>\<open>priceCurrency\<close>,
  \<^verbatim>\<open>description\<close>, \<^verbatim>\<open>itemCondition\<close>, \<^verbatim>\<open>url\<close>, \<^verbatim>\<open>choices\<close>, \<^verbatim>\<open>message\<close>, \<^verbatim>\<open>content\<close>): none of
  them is a property of a prototype, so an object has it only as its own property and a
  primitive or an array does not have it.  \<open>opt_get\<close> is the optional read \<^verbatim>\<open>v?.k\<close>.
  \<open>opt_index0\<close> is \<^verbatim>\<open>v?.[0]\<close>.
\<close>

fun get :: "jsvalue \<Rightarrow> jsstring \<Rightarrow> jsvalue" where
  "get (JObj kvs) k = (case map_of kvs k of Some v \<Rightarrow> v | None \<Rightarrow> JUndefined)"
| "get v k = JUndefined"

definition nullish :: "jsvalue \<Rightarrow> bool" where
  "nullish v = (v = JUndefined \<or> v = JNull)"

definition opt_get :: "jsvalue \<Rightarrow> jsstring \<Rightarrow> jsvalue" where
  "opt_get v k = (if nullish v then JUndefined else get v k)"

fun opt_index0 :: "jsvalue \<Rightarrow> jsvalue" where
  "opt_index0 (JArr []) = JUndefined"
| "opt_index0 (JArr (x # xs)) = x"
| "opt_index0 (JStr []) = JUndefined"
| "opt_index0 (JStr (c # cs)) = JStr [c]"
| "opt_index0 (JObj kvs) = get (JObj kvs) (js ''0'')"
| "opt_index0 v = JUndefined"

text \<open>
  \<open>ToString\<close>, as a template literal applies it.  An array is joined with commas, its
  \<^verbatim>\<open>null\<close> and \<^verbatim>\<open>undefined\<close> elements rendered empty.  An object renders as
  \<^verbatim>\<open>[object Object]\<close> through the inherited \<^verbatim>\<open>toString\<close>; when it has an own property
  \<^verbatim>\<open>toString\<close> (never callable in parsed JSON) the conversion finds no primitive and throws
  a TypeError.
\<close>

text \<open>The results of conversions made one after the other: the first error, or all the strings.\<close>

fun collect :: "(js_error + jsstring) list \<Rightarrow> js_error + jsstring list" where
  "collect [] = Inr []"
| "collect (Inl e # rs) = Inl e"
| "collect (Inr x # rs) = (case collect rs of Inl e \<Rightarrow> Inl e | Inr xs \<Rightarrow> Inr (x # xs))"

fun join :: "jsstring \<Rightarrow> jsstring list \<Rightarrow> jsstring" where
  "join sep [] = []"
| "join sep [s] = s"
| "join sep (s # t # ss) = s @ sep @ join sep (t # ss)"

fun ToString :: "jsvalue \<Rightarrow> js_error + jsstring" where
  "ToString JUndefined = Inr (js ''undefined'')"
| "ToString JNull = Inr (js ''null'')"
| "ToString (JBool b) = Inr (if b then js ''true'' else js ''false'')"
| "ToString (JNum t) = Inr t"
| "ToString (JStr s) = Inr s"
| "ToString (JArr xs) =
     (case collect (map (\<lambda>x. if nullish x then Inr [] else ToString x) xs) of
        Inl e \<Rightarrow> Inl e
      | Inr ss \<Rightarrow> Inr (join (js '','') ss))"
| "ToString (JObj kvs) =
     (if map_of kvs (js ''toString'') \<noteq> None
      then Inl (TypeError (js ''Cannot convert object to primitive value''))
      else Inr (js ''[object Object]''))"

text \<open>The logical or \<^verbatim>\<open>a || b\<close> of two values.\<close>

definition or_else :: "jsvalue \<Rightarrow> jsvalue \<Rightarrow> jsvalue" where
  "or_else a b = (if ToBoolean a then a else b)"

text \<open>A literal of a case-sensitive pattern, matched at the start of \<open>s\<close>: the rest of \<open>s\<close>.\<close>

fun lit_prefix :: "jsstring \<Rightarrow> jsstring \<Rightarrow> jsstring option" where
  "lit_prefix [] s = Some s"
| "lit_prefix (p # ps) [] = None"
| "lit_prefix (p # ps) (c # cs) = (if p = c then lit_prefix ps cs else None)"

text \<open>
  \<^verbatim>\<open>s.replace(pattern, '')\<close> with a string as pattern: its first occurrence is cut out.
\<close>

definition remove_literal :: "jsstring \<Rightarrow> jsstring \<Rightarrow> jsstring" where
  "remove_literal pattern s =
     (case regex_search (lit_prefix pattern) s of
        None \<Rightarrow> s
      | Some (pre, post) \<Rightarrow> pre @ post)"

text \<open>The decimal rendering of a natural number (an HTTP status in a template literal).\<close>

function decimal :: "nat \<Rightarrow> jsstring" where
  "decimal n = (if n < 10 then [of_nat (48 + n)] else decimal (n div 10) @ [of_nat (48 + n mod 10)])"
  by pat_completeness auto
termination
  by (relation "measure id") auto

declare decimal.simps [simp del]

section \<open>The field extractors\<close>

text \<open>
  The two copies of the extractors and of \<^verbatim>\<open>fetchVintedListing\<close> in the source (the Gemini
  and the Groq variant of the function file) are the same text; they are modelled once.

  Each pattern is given by its attempt at one index.  In all of them a greedy star or plus is
  followed by something its class excludes, so the longest run is the only one that can lead
  to a match.  \<open>quoted_at lit\<close> is \<^verbatim>\<open>lit([^"]+)"\<close>: after the literal at least one code unit
  other than the double quote, then a double quote; the result is the group.
\<close>

definition quoted_at :: "jsstring \<Rightarrow> jsstring \<Rightarrow> jsstring option" where
  "quoted_at lit s =
     (case lit_prefix lit s of
        None \<Rightarrow> None
      | Some r \<Rightarrow>
          if takeWhile (\<lambda>c. c \<noteq> 0x22) r \<noteq> [] \<and> dropWhile (\<lambda>c. c \<noteq> 0x22) r \<noteq> []
          then Some (takeWhile (\<lambda>c. c \<noteq> 0x22) r) else None)"

text \<open>\<^verbatim>\<open>/<meta property="og:title" content="([^"]+)"/\<close> and the same for the description.\<close>

definition og_title_at :: "jsstring \<Rightarrow> jsstring option" where
  "og_title_at = quoted_at (js ''<meta property=\"og:title\" content=\"'')"

definition og_description_at :: "jsstring \<Rightarrow> jsstring option" where
  "og_description_at = quoted_at (js ''<meta property=\"og:description\" content=\"'')"

text \<open>\<^verbatim>\<open>/"brand":\s*{\s*"name":\s*"([^"]+)"/\<close>\<close>

definition brand_at :: "jsstring \<Rightarrow> jsstring option" where
  "brand_at s =
     (case lit_prefix (js ''\"brand\":'') s of
        None \<Rightarrow> None
      | Some r1 \<Rightarrow>
          (case lit_prefix (js ''{'') (dropWhile is_space r1) of
             None \<Rightarrow> None
           | Some r2 \<Rightarrow>
               (case lit_prefix (js ''\"name\":'') (dropWhile is_space r2) of
                  None \<Rightarrow> None
                | Some r3 \<Rightarrow> quoted_at (js ''\"'') (dropWhile is_space r3))))"

text \<open>
  \<^verbatim>\<open>/"price":\s*"?(\d+(?:\.\d+)?)"?/\<close>: after the literal and white space an optional quote,
  then digits, then optionally a dot with digits after it; the group is the number.
\<close>

definition price_at :: "jsstring \<Rightarrow> jsstring option" where
  "price_at s =
     (case lit_prefix (js ''\"price\":'') s of
        None \<Rightarrow> None
      | Some r \<Rightarrow>
          (let r1 = dropWhile is_space r;
               r2 = (case r1 of [] \<Rightarrow> r1 | c # cs \<Rightarrow> if c = 0x22 then cs else r1);
               ds = takeWhile is_digit r2
           in if ds = [] then None
              else (case dropWhile is_digit r2 of
                      [] \<Rightarrow> Some ds
                    | c # cs \<Rightarrow>
                        if c = 0x2E \<and> takeWhile is_digit cs \<noteq> []
                        then Some (ds @ 0x2E # takeWhile is_digit cs)
                        else Some ds)))"

definition extractTitle :: "jsstring \<Rightarrow> jsvalue \<Rightarrow> jsvalue" where
  "extractTitle html jsonLd =
     (if ToBoolean (opt_get jsonLd (js ''name'')) then get jsonLd (js ''name'')
      else (case regex_search og_title_at html of
              Some (pre, capture) \<Rightarrow> JStr capture
            | None \<Rightarrow> JNull))"

definition extractBrand :: "jsstring \<Rightarrow> jsvalue \<Rightarrow> jsvalue" where
  "extractBrand html jsonLd =
     (if ToBoolean (opt_get (opt_get jsonLd (js ''brand'')) (js ''name''))
      then get (get jsonLd (js ''brand'')) (js ''name'')
      else (case regex_search brand_at html of
              Some (pre, capture) \<Rightarrow> JStr capture
            | None \<Rightarrow> JNull))"

text \<open>
  The euro sign is the code unit U+20AC.  The template literal converts the currency and
  then the price to strings, and either conversion can throw.
\<close>

definition extractPrice :: "jsstring \<Rightarrow> jsvalue \<Rightarrow> js_error + jsvalue" where
  "extractPrice html jsonLd =
     (if ToBoolean (opt_get (opt_get jsonLd (js ''offers'')) (js ''price'')) then
        (let offers = get jsonLd (js ''offers'');
             currency = or_else (get offers (js ''priceCurrency'')) (JStr [0x20AC])
         in case ToString (if currency = JStr (js ''EUR'') then JStr [0x20AC] else currency) of
              Inl e \<Rightarrow> Inl e
            | Inr c \<Rightarrow>
                (case ToString (get offers (js ''price'')) of
                   Inl e \<Rightarrow> Inl e
                 | Inr p \<Rightarrow> Inr (JStr (c @ p))))
      else (case regex_search price_at html of
              Some (pre, capture) \<Rightarrow> Inr (JStr (0x20AC # capture))
            | None \<Rightarrow> Inr JNull))"

definition extractDescription :: "jsstring \<Rightarrow> jsvalue \<Rightarrow> jsvalue" where
  "extractDescription html jsonLd =
     (if ToBoolean (opt_get jsonLd (js ''description'')) then get jsonLd (js ''description'')
      else (case regex_search og_description_at html of
              Some (pre, capture) \<Rightarrow> JStr capture
            | None \<Rightarrow> JNull))"

text \<open>
  \<^verbatim>\<open>jsonLd.itemCondition.replace('https://schema.org/', '')\<close>: only a string has a method
  \<^verbatim>\<open>replace\<close>.  For a truthy value of another type the read gives \<^verbatim>\<open>undefined\<close> (or, for an
  object with an own property of that name, a value that is no function) and the call throws
  a TypeError.
\<close>

definition extractCondition :: "jsstring \<Rightarrow> jsvalue \<Rightarrow> js_error + jsvalue" where
  "extractCondition html jsonLd =
     (if ToBoolean (opt_get jsonLd (js ''itemCondition'')) then
        (case get jsonLd (js ''itemCondition'') of
           JStr s \<Rightarrow> Inr (JStr (remove_literal (js ''https://schema.org/'') s))
         | v \<Rightarrow> Inl (TypeError (js ''jsonLd.itemCondition.replace is not a function'')))
      else Inr JNull)"

text \<open>
  \<^verbatim>\<open>/https:\/\/images1\.vinted\.net\/t\/[^"'\s]+/g\<close>: the attempt at one index gives the matched
  text and the text after it.  With the \<^verbatim>\<open>g\<close> flag \<^verbatim>\<open>html.match\<close> collects the matches from
  left to right, each search starting where the last match ended (a match is never empty
  here); no match at all gives \<^verbatim>\<open>null\<close>, here the empty list.
\<close>

definition url_unit :: "code_unit \<Rightarrow> bool" where
  "url_unit c = (c \<noteq> 0x22 \<and> c \<noteq> 0x27 \<and> \<not> is_space c)"

definition image_prefix :: jsstring where
  "image_prefix = js ''https://images1.vinted.net/t/''"

definition image_at :: "jsstring \<Rightarrow> (jsstring \<times> jsstring) option" where
  "image_at s =
     (case lit_prefix image_prefix s of
        None \<Rightarrow> None
      | Some r \<Rightarrow>
          if takeWhile url_unit r = [] then None
          else Some (image_prefix @ takeWhile url_unit r, dropWhile url_unit r))"

lemma regex_search_suffix:
  "regex_search m s = Some (pre, r) \<Longrightarrow> \<exists>suf. s = pre @ suf \<and> m suf = Some r"
proof (induction s arbitrary: pre)
  case Nil
  then show ?case by auto
next
  case (Cons c cs)
  show ?case
  proof (cases "m (c # cs)")
    case (Some r')
    with Cons.prems show ?thesis by auto
  next
    case None
    with Cons.prems obtain pre' where "pre = c # pre'" "regex_search m cs = Some (pre', r)"
      by auto
    with Cons.IH[of pre'] show ?thesis by auto
  qed
qed

lemma lit_prefix_length: "lit_prefix p s = Some r \<Longrightarrow> length s = length p + length r"
  by (induction p s rule: lit_prefix.induct) (auto split: if_splits)

lemma image_at_shorter: "image_at s = Some (u, rest) \<Longrightarrow> length rest < length s"
proof -
  assume a: "image_at s = Some (u, rest)"
  then obtain r where r: "lit_prefix image_prefix s = Some r" and t: "takeWhile url_unit r \<noteq> []"
    and d: "rest = dropWhile url_unit r"
    by (auto simp: image_at_def split: option.splits if_splits)
  have "length (takeWhile url_unit r) + length (dropWhile url_unit r) = length r"
    by (metis length_append takeWhile_dropWhile_id)
  moreover have "0 < length (takeWhile url_unit r)" using t by simp
  ultimately have "length rest < length r" unfolding d by linarith
  with lit_prefix_length[OF r] show ?thesis by simp
qed

function image_matches :: "jsstring \<Rightarrow> jsstring list" where
  "image_matches s =
     (case regex_search image_at s of
        None \<Rightarrow> []
      | Some (pre, u, rest) \<Rightarrow> u # image_matches rest)"
  by pat_completeness auto
termination
proof (relation "measure length")
  show "wf (measure length)" by simp
next
  fix s :: jsstring and x2 pre y u rest
  assume "regex_search image_at s = Some x2" "(pre, y) = x2" "(u, rest) = y"
  then have "regex_search image_at s = Some (pre, u, rest)" by simp
  from regex_search_suffix[OF this] obtain suf where "s = pre @ suf" "image_at suf = Some (u, rest)"
    by blast
  with image_at_shorter[of suf u rest] show "(rest, s) \<in> measure length" by simp
qed

declare image_matches.simps [simp del]

text \<open>
  \<^verbatim>\<open>[...new Set(matches)]\<close>: a set keeps its values in the order of their first insertion.
\<close>

definition Set_values :: "'a list \<Rightarrow> 'a list" where
  "Set_values xs = foldl (\<lambda>acc x. if x \<in> set acc then acc else acc @ [x]) [] xs"

definition extractImages :: "jsstring \<Rightarrow> jsstring list" where
  "extractImages html =
     (let matches = image_matches html
      in if matches \<noteq> [] then take 5 (Set_values matches) else [])"


section \<open>Fetching the listing\<close>

text \<open>
  The world outside the function: the environment variable, \<^verbatim>\<open>fetch\<close> (a rejected promise
  is the error, a fulfilled one the response with \<^verbatim>\<open>ok\<close>, \<^verbatim>\<open>status\<close> and the body text) and
  \<^verbatim>\<open>JSON.parse\<close> (a SyntaxError, or the value).  A request records what \<^verbatim>\<open>fetch\<close> was called
  with; its body is the value handed to \<^verbatim>\<open>JSON.stringify\<close>.  Every function that calls
  \<^verbatim>\<open>fetch\<close> returns the requests it made, in order, beside its result.
\<close>

record response =
  resp_ok :: bool
  resp_status :: nat
  resp_text :: jsstring

record request =
  req_method :: jsstring
  req_url :: jsvalue
  req_headers :: "(jsstring \<times> jsstring) list"
  req_body :: jsvalue

record world =
  GROQ_API_KEY :: "jsstring option"
  fetch :: "request \<Rightarrow> js_error + response"
  JSON_parse :: "jsstring \<Rightarrow> js_error + jsvalue"

record ListingData =
  title :: jsvalue
  brand :: jsvalue
  price :: jsvalue
  description :: jsvalue
  condition :: jsvalue
  images :: "jsstring list"
  url :: jsvalue

definition listing_request :: "jsvalue \<Rightarrow> request" where
  "listing_request u =
     \<lparr> req_method = js ''GET'',
       req_url = u,
       req_headers =
         [(js ''User-Agent'', js ''Mozilla/5.0 (Macintosh; Intel Mac OS X 10_15_7) AppleWebKit/537.36 (KHTML, like Gecko) Chrome/120.0.0.0 Safari/537.36''),
          (js ''Accept'', js ''text/html,application/xhtml+xml,application/xml;q=0.9,image/webp,*/*;q=0.8''),
          (js ''Accept-Language'', js ''en-US,en;q=0.5'')],
       req_body = JUndefined \<rparr>"

text \<open>
  \<^verbatim>\<open>/<script type="application\/ld\+json">([\s\S]*?)<\/script>/\<close>: the lazy star stops at the
  first closing tag after the opening one; the group is the text between them.  A parse
  failure is caught and leaves \<^verbatim>\<open>jsonLdData\<close> at \<^verbatim>\<open>null\<close>.
\<close>

definition script_at :: "jsstring \<Rightarrow> jsstring option" where
  "script_at s =
     (case lit_prefix (js ''<script type=\"application/ld+json\">'') s of
        None \<Rightarrow> None
      | Some r \<Rightarrow>
          (case regex_search (lit_prefix (js ''</script>'')) r of
             None \<Rightarrow> None
           | Some (inner, after) \<Rightarrow> Some inner))"

definition parse_jsonLd :: "world \<Rightarrow> jsstring \<Rightarrow> jsvalue" where
  "parse_jsonLd w html =
     (case regex_search script_at html of
        None \<Rightarrow> JNull
      | Some (pre, inner) \<Rightarrow>
          (case JSON_parse w inner of
             Inl e \<Rightarrow> JNull
           | Inr v \<Rightarrow> v))"

text \<open>
  The part of \<^verbatim>\<open>fetchVintedListing\<close> after the page text has arrived: the listing's values are
  extracted in the order of the object literal, then the gate on title and price.
\<close>

definition listing_of_html :: "world \<Rightarrow> jsstring \<Rightarrow> jsvalue \<Rightarrow> js_error + ListingData" where
  "listing_of_html w html u =
     (let jsonLdData = parse_jsonLd w html
      in case extractPrice html jsonLdData of
           Inl e \<Rightarrow> Inl e
         | Inr p \<Rightarrow>
             (case extractCondition html jsonLdData of
                Inl e \<Rightarrow> Inl e
              | Inr c \<Rightarrow>
                  (let data = \<lparr> title = extractTitle html jsonLdData,
                                brand = extractBrand html jsonLdData,
                                price = p,
                                description = extractDescription html jsonLdData,
                                condition = c,
                                images = extractImages html,
                                url = u \<rparr>
                   in if \<not> ToBoolean (title data) \<and> \<not> ToBoolean (price data)
                      then Inl (Error (js ''Could not extract listing data. The listing may be unavailable.''))
                      else Inr data)))"

definition fetchVintedListing :: "world \<Rightarrow> jsvalue \<Rightarrow> request list \<times> (js_error + ListingData)" where
  "fetchVintedListing w u =
     ([listing_request u],
      case fetch w (listing_request u) of
        Inl e \<Rightarrow> Inl e
      | Inr response \<Rightarrow>
          if \<not> resp_ok response then Inl (Error (js ''Failed to fetch Vinted listing''))
          else listing_of_html w (resp_text response) u)"

section \<open>The analysis and the request handler (Groq variant)\<close>

definition GROQ_API_URL :: jsstring where
  "GROQ_API_URL = js ''https://api.groq.com/openai/v1/chat/completions''"

text \<open>\<^verbatim>\<open>buildPrompt\<close>: the template, its lines joined by line feeds; a conversion can throw.\<close>

definition buildPrompt :: "ListingData \<Rightarrow> js_error + jsstring" where
  "buildPrompt listing =
     (case collect
        [ToString (or_else (title listing) (JStr (js ''Unknown''))),
         ToString (or_else (brand listing) (JStr (js ''Unknown''))),
         ToString (or_else (price listing) (JStr (js ''Unknown''))),
         ToString (or_else (description listing) (JStr (js ''No description''))),
         ToString (or_else (condition listing) (JStr (js ''Unknown'')))] of
        Inl e \<Rightarrow> Inl e
      | Inr rendered \<Rightarrow>
          Inr (join [0x0A]
            [js ''Analyze this Vinted listing and provide a deal rating.'',
             [],
             js ''LISTING:'',
             js ''- Title: '' @ rendered ! 0,
             js ''- Brand: '' @ rendered ! 1,
             js ''- Price: '' @ rendered ! 2,
             js ''- Description: '' @ rendered ! 3,
             js ''- Condition: '' @ rendered ! 4,
             [],
             js ''Provide:'',
             js ''1. RATING (1-5):'',
             js ''   5 = Absolute steal'',
             js ''   4 = Great deal'',
             js ''   3 = Fair price'',
             js ''   2 = Slightly overpriced'',
             js ''   1 = Overpriced'',
             [],
             js ''2. ASSESSMENT (2-3 sentences): Compare to market value. Note if it'' @ [0x27] @
               js ''s a budget/diffusion line (e.g., Armani Exchange vs Giorgio Armani). Mention quality indicators.'',
             [],
             js ''IMPORTANT: Watch for budget lines being priced as luxury (Armani Exchange, DKNY, Marc by Marc Jacobs, etc.)'',
             [],
             js ''Format your response EXACTLY like this:'',
             js ''RATING: [number]'',
             js ''ASSESSMENT: [your text]'']))"

definition groq_request :: "jsstring \<Rightarrow> jsstring \<Rightarrow> request" where
  "groq_request key prompt =
     \<lparr> req_method = js ''POST'',
       req_url = JStr GROQ_API_URL,
       req_headers =
         [(js ''Authorization'', js ''Bearer '' @ key),
          (js ''Content-Type'', js ''application/json'')],
       req_body =
         JObj [(js ''model'', JStr (js ''llama-3.3-70b-versatile'')),
               (js ''messages'',
                JArr [JObj [(js ''role'', JStr (js ''system'')),
                            (js ''content'', JStr (js ''You are an expert at evaluating secondhand clothing deals. Be concise and helpful.''))],
                      JObj [(js ''role'', JStr (js ''user'')),
                            (js ''content'', JStr prompt)]]),
               (js ''temperature'', JNum (js ''0.7'')),
               (js ''max_tokens'', JNum (js ''500''))] \<rparr>"

text \<open>
  What \<^verbatim>\<open>analyzeWithGroq\<close> does with a fulfilled response.  \<^verbatim>\<open>response.json()\<close> parses the
  body; \<^verbatim>\<open>result.choices\<close> throws on \<^verbatim>\<open>null\<close>; a truthy \<^verbatim>\<open>text\<close> that is no string has no
  method \<^verbatim>\<open>match\<close>, so \<^verbatim>\<open>parseAIResponse\<close> throws on it.
\<close>

definition analysis_of_response :: "world \<Rightarrow> response \<Rightarrow> js_error + AnalysisResult" where
  "analysis_of_response w response =
     (if \<not> resp_ok response
      then Inl (Error (js ''AI analysis failed: '' @ decimal (resp_status response) @ js '' - '' @
                       take 200 (resp_text response)))
      else (case JSON_parse w (resp_text response) of
              Inl e \<Rightarrow> Inl e
            | Inr result \<Rightarrow>
                if nullish result
                then Inl (TypeError (js ''Cannot read properties of null (reading 'choices')''))
                else (let text = opt_get (opt_get (opt_index0 (get result (js ''choices'')))
                                            (js ''message'')) (js ''content'')
                      in if \<not> ToBoolean text then Inl (Error (js ''No analysis generated''))
                         else (case text of
                                 JStr s \<Rightarrow> Inr (parseAIResponse s)
                               | v \<Rightarrow> Inl (TypeError (js ''text.match is not a function''))))))"

definition analyzeWithGroq :: "world \<Rightarrow> ListingData \<Rightarrow> request list \<times> (js_error + AnalysisResult)" where
  "analyzeWithGroq w listingData =
     (case GROQ_API_KEY w of
        None \<Rightarrow> ([], Inl (Error (js ''GROQ_API_KEY environment variable not set'')))
      | Some key \<Rightarrow>
          if key = [] then ([], Inl (Error (js ''GROQ_API_KEY environment variable not set'')))
          else (case buildPrompt listingData of
                  Inl e \<Rightarrow> ([], Inl e)
                | Inr prompt \<Rightarrow>
                    ([groq_request key prompt],
                     case fetch w (groq_request key prompt) of
                       Inl e \<Rightarrow> Inl e
                     | Inr response \<Rightarrow> analysis_of_response w response)))"

text \<open>
  The handler answers with a status and a JSON body, or lets an error escape (the
  destructuring of \<^verbatim>\<open>req.body\<close> stands before the \<^verbatim>\<open>try\<close>).  The texts of the
  TypeErrors that the runtime raises are those of V8 for an \<^verbatim>\<open>undefined\<close> body and a \<^verbatim>\<open>null\<close>
  result; no property below depends on them.
\<close>

record http_request =
  http_method :: jsstring
  http_body :: jsvalue

datatype api_body =
    ErrorBody jsstring
  | AnalysisBody jsnum jsstring jsvalue jsvalue jsvalue jsvalue

datatype outcome = Responded nat api_body | Uncaught js_error

definition caught :: "js_error \<Rightarrow> outcome" where
  "caught e =
     Responded 500 (ErrorBody (if message e \<noteq> [] then message e else js ''Failed to analyze listing''))"

definition handler :: "world \<Rightarrow> http_request \<Rightarrow> request list \<times> outcome" where
  "handler w req =
     (if http_method req \<noteq> js ''POST''
      then ([], Responded 405 (ErrorBody (js ''Method not allowed'')))
      else if nullish (http_body req)
      then ([], Uncaught (TypeError (js ''Cannot destructure property 'url' of 'req.body' as it is undefined.'')))
      else (let u = get (http_body req) (js ''url'')
            in if \<not> ToBoolean u then ([], Responded 400 (ErrorBody (js ''URL is required'')))
               else (case fetchVintedListing w u of
                       (calls1, Inl e) \<Rightarrow> (calls1, caught e)
                     | (calls1, Inr listingData) \<Rightarrow>
                         (case analyzeWithGroq w listingData of
                            (calls2, Inl e) \<Rightarrow> (calls1 @ calls2, caught e)
                          | (calls2, Inr analysis) \<Rightarrow>
                              (calls1 @ calls2,
                               Responded 200
                                 (AnalysisBody (rating analysis) (assessment analysis)
                                    (title listingData) (brand listingData) (price listingData)
                                    (case images listingData of [] \<Rightarrow> JNull | i # is \<Rightarrow> JStr i)))))))"

section \<open>Concrete worlds\<close>

text \<open>
  Worlds to run the functions in: every \<^verbatim>\<open>fetch\<close> is answered with the given status and page
  (\<^verbatim>\<open>ok\<close> is a status from 200 to 299), and \<^verbatim>\<open>JSON.parse\<close> knows the JSON texts of the table
  and throws on any other text.
\<close>

definition page_world :: "jsstring option \<Rightarrow> nat \<Rightarrow> jsstring \<Rightarrow> (jsstring \<times> jsvalue) list \<Rightarrow> world" where
  "page_world key st page table =
     \<lparr> GROQ_API_KEY = key,
       fetch = (\<lambda>rq. Inr \<lparr> resp_ok = (200 \<le> st \<and> st < 300), resp_status = st, resp_text = page \<rparr>),
       JSON_parse = (\<lambda>s. case map_of table s of
                            Some v \<Rightarrow> Inr v
                          | None \<Rightarrow> Inl (SyntaxError (js ''Unexpected token''))) \<rparr>"

definition demo_url :: jsvalue where
  "demo_url = JStr (js ''https://www.vinted.fr/items/1-coat'')"

definition demo_request :: http_request where
  "demo_request = \<lparr> http_method = js ''POST'', http_body = JObj [(js ''url'', demo_url)] \<rparr>"

text \<open>A page with nothing but an Open Graph title.\<close>

definition title_page :: jsstring where
  "title_page = js ''<meta property=\"og:title\" content=\"Wool Coat\">''"

text \<open>A page whose structured data has a number as \<^verbatim>\<open>itemCondition\<close>.\<close>

definition number_condition_json :: jsstring where
  "number_condition_json = js ''{\"name\":\"Coat\",\"itemCondition\":1}''"

definition number_condition_value :: jsvalue where
  "number_condition_value =
     JObj [(js ''name'', JStr (js ''Coat'')), (js ''itemCondition'', JNum (js ''1''))]"

definition number_condition_page :: jsstring where
  "number_condition_page =
     js ''<script type=\"application/ld+json\">'' @ number_condition_json @ js ''</script>''"

text \<open>A page whose structured data has an object as \<^verbatim>\<open>itemCondition\<close>.\<close>

definition object_condition_json :: jsstring where
  "object_condition_json = js ''{\"name\":\"Coat\",\"itemCondition\":{\"@type\":\"OfferItemCondition\"}}''"

definition object_condition_value :: jsvalue where
  "object_condition_value =
     JObj [(js ''name'', JStr (js ''Coat'')),
           (js ''itemCondition'', JObj [(js ''@type'', JStr (js ''OfferItemCondition''))])]"

definition object_condition_page :: jsstring where
  "object_condition_page =
     js ''<script type=\"application/ld+json\">'' @ object_condition_json @ js ''</script>''"

text \<open>A page whose structured data has empty arrays as price and currency.\<close>

definition empty_price_json :: jsstring where
  "empty_price_json = js ''{\"offers\":{\"price\":[],\"priceCurrency\":[]}}''"

definition empty_price_value :: jsvalue where
  "empty_price_value =
     JObj [(js ''offers'', JObj [(js ''price'', JArr []), (js ''priceCurrency'', JArr [])])]"

definition empty_price_page :: jsstring where
  "empty_price_page =
     js ''<script type=\"application/ld+json\">'' @ empty_price_json @ js ''</script>''"

section \<open>Properties of the response parser\<close>

subsection \<open>The matcher finds the leftmost occurrence\<close>

lemma space_not_digit: "is_space c \<Longrightarrow> \<not> is_digit c"
  unfolding is_space_def is_digit_def by (auto simp: word_le_nat_alt)

lemma ci_prefix_iff: "ci_prefix p s = Some r \<longleftrightarrow> (\<exists>m. s = m @ r \<and> ci_equal p m)"
proof (induction p s rule: ci_prefix.induct)
  case (1 s)
  show ?case by (auto simp: ci_equal_def)
next
  case (2 p ps)
  show ?case by (auto simp: ci_equal_def list_all2_Cons1)
next
  case (3 p ps c cs)
  show ?case
  proof (cases "ci_unit p c")
    case True
    with 3 show ?thesis
      by (auto simp: ci_equal_def list_all2_Cons1 Cons_eq_append_conv)
  next
    case False
    then show ?thesis
      by (auto simp: ci_equal_def list_all2_Cons1 Cons_eq_append_conv)
  qed
qed

lemma dropWhile_spaces_then: "list_all is_space ws \<Longrightarrow> \<not> is_space d \<Longrightarrow> dropWhile is_space (ws @ d # post) = d # post"
  by (induction ws) auto

lemma rating_at_iff:
  "rating_at s = Some (d, post) \<longleftrightarrow>
     (\<exists>mk ws. s = mk @ ws @ d # post \<and> ci_equal (js ''RATING:'') mk \<and> list_all is_space ws \<and> is_digit d)"
proof
  assume "rating_at s = Some (d, post)"
  then obtain r where r: "ci_prefix (js ''RATING:'') s = Some r"
    and dw: "dropWhile is_space r = d # post" and dg: "is_digit d"
    by (auto simp: rating_at_def split: option.splits list.splits if_splits)
  from r obtain mk where mk: "s = mk @ r" "ci_equal (js ''RATING:'') mk"
    by (auto simp: ci_prefix_iff)
  have "r = takeWhile is_space r @ d # post"
    using dw takeWhile_dropWhile_id[of is_space r] by simp
  moreover have "list_all is_space (takeWhile is_space r)"
    by (simp add: list_all_iff) (meson set_takeWhileD)
  ultimately show "\<exists>mk ws. s = mk @ ws @ d # post \<and> ci_equal (js ''RATING:'') mk \<and> list_all is_space ws \<and> is_digit d"
    using mk dg by blast
next
  assume "\<exists>mk ws. s = mk @ ws @ d # post \<and> ci_equal (js ''RATING:'') mk \<and> list_all is_space ws \<and> is_digit d"
  then obtain mk ws where h: "s = mk @ ws @ d # post" "ci_equal (js ''RATING:'') mk"
    "list_all is_space ws" "is_digit d" by blast
  then have "ci_prefix (js ''RATING:'') s = Some (ws @ d # post)"
    by (auto simp: ci_prefix_iff)
  moreover have "dropWhile is_space (ws @ d # post) = d # post"
    using h space_not_digit by (intro dropWhile_spaces_then) auto
  ultimately show "rating_at s = Some (d, post)"
    using h by (simp add: rating_at_def)
qed

lemma regex_search_None: "regex_search m s = None \<longleftrightarrow> (\<forall>i\<le>length s. m (drop i s) = None)"
proof (induction s)
  case Nil
  show ?case by simp
next
  case (Cons c cs)
  show ?case
  proof (cases "m (c # cs)")
    case None
    have "(\<forall>i\<le>length (c # cs). m (drop i (c # cs)) = None) \<longleftrightarrow> (\<forall>i\<le>length cs. m (drop i cs) = None)"
      using None by (auto simp: drop_Cons split: nat.splits) 
    with None Cons show ?thesis by simp
  next
    case (Some r)
    then have "\<not> (\<forall>i\<le>length (c # cs). m (drop i (c # cs)) = None)"
      by (auto intro!: exI[of _ 0])
    with Some show ?thesis by simp
  qed
qed

lemma regex_search_Some:
  "regex_search m s = Some (pre, r) \<longleftrightarrow>
     (length pre \<le> length s \<and> pre = take (length pre) s \<and> m (drop (length pre) s) = Some r \<and>
      (\<forall>j<length pre. m (drop j s) = None))"
proof (induction s arbitrary: pre)
  case Nil
  show ?case by auto
next
  case (Cons c cs)
  show ?case
  proof (cases "m (c # cs)")
    case (Some r')
    show ?thesis
    proof (cases pre)
      case Nil
      with Some show ?thesis by auto
    next
      case (Cons p ps)
      with Some show ?thesis by auto
    qed
  next
    case None
    show ?thesis
    proof (cases pre)
      case Nil
      with None show ?thesis by auto
    next
      case (Cons p ps)
      have "(\<forall>j<length (p # ps). m (drop j (c # cs)) = None) \<longleftrightarrow> (\<forall>j<length ps. m (drop j cs) = None)"
        using None by (auto simp: drop_Cons less_Suc_eq_0_disj split: nat.splits)
      with None Cons Cons.IH[of ps] show ?thesis by auto
    qed
  qed
qed


lemma parseGemini_eq: "parseGeminiResponse text = parseAIResponse text"
  by (simp add: parseGeminiResponse_def parseAIResponse_def)

lemma digit_facts: "is_digit d \<Longrightarrow> \<not> is_space d \<and> d \<noteq> 0x2D \<and> d \<noteq> 0x2B"
  unfolding is_space_def is_digit_def by (auto simp: word_le_nat_alt)

lemma parseInt_digit: "is_digit d \<Longrightarrow> parseInt [d] = Num (digit_value d)"
  using digit_facts[of d] by (simp add: parseInt_def js_def)

lemma digit_value_range: "is_digit d \<Longrightarrow> 0 \<le> digit_value d \<and> digit_value d \<le> 9"
  unfolding is_digit_def digit_value_def by (auto simp: word_le_def)

lemma rating_occurrence_iff: "rating_occurrence text i d post \<longleftrightarrow> rating_at (drop i text) = Some (d, post)"
  by (simp add: rating_occurrence_def rating_at_iff)

lemma rating_at_Nil: "rating_at [] = None"
  by (simp add: rating_at_def js_def)

lemma has_rating_iff: "has_rating text \<longleftrightarrow> regex_search rating_at text \<noteq> None"
proof
  assume "has_rating text"
  then obtain i d post where h: "rating_at (drop i text) = Some (d, post)"
    by (auto simp: has_rating_def rating_occurrence_iff)
  then have "i \<le> length text" using rating_at_Nil by (cases "i \<le> length text") auto
  with h show "regex_search rating_at text \<noteq> None"
    by (auto simp: regex_search_None)
next
  assume "regex_search rating_at text \<noteq> None"
  then obtain i where "rating_at (drop i text) \<noteq> None"
    by (auto simp: regex_search_None)
  then show "has_rating text"
    by (auto simp: has_rating_def rating_occurrence_iff)
qed

lemma first_rating_search:
  assumes "first_rating text i d post"
  shows "regex_search rating_at text = Some (take i text, d, post)"
proof -
  from assms have h: "rating_at (drop i text) = Some (d, post)"
    and e0: "\<forall>j<i. \<forall>d' post'. rating_at (drop j text) \<noteq> Some (d', post')"
    by (auto simp: first_rating_def rating_occurrence_iff)
  have e: "\<forall>j<i. rating_at (drop j text) = None"
  proof (intro allI impI)
    fix j assume "j < i"
    with e0 show "rating_at (drop j text) = None"
      by (cases "rating_at (drop j text)") auto
  qed
  from h have "i \<le> length text" using rating_at_Nil by (cases "i \<le> length text") auto
  then have "length (take i text) = i" by simp
  with h e show ?thesis
    by (simp add: regex_search_Some)
qed

lemma search_first_rating:
  assumes "regex_search rating_at text = Some (pre, d, post)"
  shows "first_rating text (length pre) d post \<and> text = pre @ drop (length pre) text"
proof -
  from assms have a: "pre = take (length pre) text"
    and b: "rating_at (drop (length pre) text) = Some (d, post)"
    and c: "\<forall>j<length pre. rating_at (drop j text) = None"
    by (simp_all add: regex_search_Some)
  from b c have "first_rating text (length pre) d post"
    by (simp add: first_rating_def rating_occurrence_iff)
  moreover from a have "text = pre @ drop (length pre) text"
    by (metis append_take_drop_id)
  ultimately show ?thesis by simp
qed

lemma rating_default: "\<not> has_rating text \<Longrightarrow> rating (parseAIResponse text) = Num 3"
  by (cases "regex_search rating_at text") (auto simp: has_rating_iff parseAIResponse_def)

lemma rating_of_first:
  assumes "first_rating text i d post"
  shows "rating (parseAIResponse text) = Num (min 5 (max 1 (digit_value d)))"
proof -
  from assms have "is_digit d"
    by (auto simp: first_rating_def rating_occurrence_def)
  then show ?thesis
    using first_rating_search[OF assms] by (simp add: parseAIResponse_def parseInt_digit)
qed

lemma rating_range: "\<exists>n. rating (parseAIResponse text) = Num n \<and> 1 \<le> n \<and> n \<le> 5"
proof (cases "regex_search rating_at text")
  case None
  then show ?thesis by (simp add: parseAIResponse_def)
next
  case (Some m)
  obtain pre d post where m: "m = (pre, d, post)" by (cases m) auto
  from search_first_rating[OF Some[unfolded m]] rating_of_first
  have "rating (parseAIResponse text) = Num (min 5 (max 1 (digit_value d)))" by blast
  then show ?thesis by auto
qed

subsection \<open>Trimming and the clean-up of the assessment\<close>

lemma dropWhile_snoc_keep: "\<not> P h \<Longrightarrow> dropWhile P (xs @ [h]) = dropWhile P xs @ [h]"
  by (induction xs) auto

lemma dropWhile_hd: "xs \<noteq> [] \<Longrightarrow> \<not> P (hd xs) \<Longrightarrow> dropWhile P xs = xs"
  by (cases xs) auto

lemma trim_shape: "trim s = [] \<or> (\<not> is_space (hd (trim s)) \<and> \<not> is_space (last (trim s)))"
proof (cases "dropWhile is_space s")
  case Nil
  then have "trim s = []" by (metis trim_def rev.simps(1) dropWhile.simps(1))
  then show ?thesis by simp
next
  case (Cons h t)
  then have nh: "\<not> is_space h" by (metis hd_dropWhile list.sel(1) list.distinct(1))
  have "dropWhile is_space (rev t @ [h]) = dropWhile is_space (rev t) @ [h]"
    using nh by (rule dropWhile_snoc_keep)
  then have e: "trim s = h # rev (dropWhile is_space (rev t))"
    using Cons by (simp add: trim_def)
  have "dropWhile is_space (rev (h # t)) \<noteq> []" by (simp add: nh dropWhile_snoc_keep)
  then have "\<not> is_space (hd (dropWhile is_space (rev (h # t))))" by (rule hd_dropWhile)
  then have "\<not> is_space (last (trim s))"
    using Cons \<open>dropWhile is_space (rev (h # t)) \<noteq> []\<close> by (simp add: trim_def last_rev)
  with e nh show ?thesis by simp
qed

lemma trimmed_iff: "trim s = s \<longleftrightarrow> (s = [] \<or> (\<not> is_space (hd s) \<and> \<not> is_space (last s)))"
proof
  assume "trim s = s" then show "s = [] \<or> (\<not> is_space (hd s) \<and> \<not> is_space (last s))"
    using trim_shape[of s] by simp
next
  assume a: "s = [] \<or> (\<not> is_space (hd s) \<and> \<not> is_space (last s))"
  show "trim s = s"
  proof (cases s)
    case Nil then show ?thesis by (simp add: trim_def)
  next
    case (Cons h t)
    with a have h: "\<not> is_space h" and l: "\<not> is_space (last s)" by auto
    have 1: "dropWhile is_space s = s" using Cons h by simp
    have "rev s \<noteq> []" using Cons by simp
    moreover have "hd (rev s) = last s" using Cons by (simp add: hd_rev)
    ultimately have "dropWhile is_space (rev s) = rev s" using l by (simp add: dropWhile_hd)
    with 1 show ?thesis by (simp add: trim_def)
  qed
qed

lemma trim_trim: "trim (trim s) = trim s"
  using trim_shape[of s] by (simp add: trimmed_iff)

lemma dropWhile_trim: "dropWhile is_space (trim s) = trim s"
  using trim_shape[of s] by (cases "trim s") auto

lemma trim_dropWhile: "trim (dropWhile is_space s) = trim s"
  by (simp add: trim_def)

lemma trim_all_space: "dropWhile is_space s = [] \<Longrightarrow> trim s = []"
  by (metis trim_def rev.simps(1) dropWhile.simps(1))

lemma replace_cleanup_trim:
  "replace_cleanup (trim s) =
     (case trim s of [] \<Rightarrow> [] | c # r \<Rightarrow> if c = 0x2D \<or> c = 0x3A then dropWhile is_space r else c # r)"
  by (simp add: replace_cleanup_def cleanup_at_def dropWhile_trim split: list.splits)

lemma last_dropWhile: "dropWhile P xs \<noteq> [] \<Longrightarrow> last (dropWhile P xs) = last xs"
  by (induction xs) (auto split: if_splits)

lemma trimmed_replace_cleanup: "trim (replace_cleanup (trim s)) = replace_cleanup (trim s)"
proof (cases "trim s")
  case Nil
  then have "replace_cleanup (trim s) = []" by (simp add: replace_cleanup_def cleanup_at_def)
  then show ?thesis by (simp add: trimmed_iff)
next
  case (Cons c r)
  show ?thesis
  proof (cases "c = 0x2D \<or> c = 0x3A")
    case False
    then have "replace_cleanup (trim s) = trim s" using Cons replace_cleanup_trim[of s] by simp
    then show ?thesis by (simp add: trim_trim)
  next
    case True
    then have e: "replace_cleanup (trim s) = dropWhile is_space r" using Cons replace_cleanup_trim[of s] by simp
    show ?thesis
    proof (cases "dropWhile is_space r")
      case Nil
      with e show ?thesis by (simp add: trimmed_iff)
    next
      case (Cons h t)
      then have "\<not> is_space h" by (metis hd_dropWhile list.sel(1) list.distinct(1))
      moreover have "r \<noteq> []" using Cons by auto
      then have "last (trim s) = last r" using \<open>trim s = c # r\<close> by simp
      then have "\<not> is_space (last r)" using trim_shape[of s] \<open>trim s = c # r\<close> by auto
      then have "\<not> is_space (last (dropWhile is_space r))" using Cons last_dropWhile[of is_space r] by simp
      ultimately show ?thesis using e Cons by (simp add: trimmed_iff)
    qed
  qed
qed

lemma assessment_trimmed: "trim (assessment (parseAIResponse text)) = assessment (parseAIResponse text)"
  by (simp add: parseAIResponse_def trimmed_replace_cleanup split: option.splits prod.splits)

subsection \<open>The assessment marker\<close>

lemma marker_at_iff: "marker_at text i \<longleftrightarrow> ci_prefix (js ''ASSESSMENT:'') (drop i text) \<noteq> None"
  by (auto simp: marker_at_def ci_prefix_iff)

lemma no_marker_search: "\<not> has_marker text \<Longrightarrow> regex_search assessment_at text = None"
  by (auto simp: has_marker_def marker_at_iff regex_search_None assessment_at_def)

lemma first_marker_search:
  assumes "text = pre @ mk @ rest" "ci_equal (js ''ASSESSMENT:'') mk"
    "\<forall>j<length pre. \<not> marker_at text j" "rest \<noteq> []"
  shows "\<exists>capture. regex_search assessment_at text = Some (pre, capture) \<and> trim capture = trim rest"
proof -
  have "ci_prefix (js ''ASSESSMENT:'') (mk @ rest) = Some rest"
    using assms(2) by (auto simp: ci_prefix_iff)
  then have a: "assessment_at (drop (length pre) text) =
      Some (if dropWhile is_space rest \<noteq> [] then dropWhile is_space rest else [last rest])"
    using assms(1,4) by (simp add: assessment_at_def)
  have b: "\<forall>j<length pre. assessment_at (drop j text) = None"
    using assms(3) by (auto simp: marker_at_iff assessment_at_def)
  have c: "pre = take (length pre) text" using assms(1) by simp
  have d: "length pre \<le> length text" using assms(1) by simp
  let ?cap = "if dropWhile is_space rest \<noteq> [] then dropWhile is_space rest else [last rest]"
  have "regex_search assessment_at text = Some (pre, ?cap)"
    using a b c d by (simp add: regex_search_Some)
  moreover have "trim ?cap = trim rest"
  proof (cases "dropWhile is_space rest = []")
    case True
    then have "is_space (last rest)" using assms(4)
      by (metis dropWhile_eq_Nil_conv last_in_set)
    then have "trim [last rest] = []" by (simp add: trim_def)
    with True show ?thesis by (simp add: trim_all_space)
  next
    case False
    then show ?thesis by (simp add: trim_dropWhile)
  qed
  ultimately show ?thesis by blast
qed

lemma has_marker_iff: "has_marker text \<longleftrightarrow> regex_search (ci_prefix (js ''ASSESSMENT:'')) text \<noteq> None"
proof -
  have "ci_prefix (js ''ASSESSMENT:'') [] = None" by (simp add: js_def)
  then have "\<And>i. \<not> i \<le> length text \<Longrightarrow> ci_prefix (js ''ASSESSMENT:'') (drop i text) = None"
    by simp
  then show ?thesis
    unfolding has_marker_def marker_at_iff regex_search_None by (metis not_Some_eq)
qed

lemma search_no_earlier_marker:
  "regex_search (ci_prefix (js ''ASSESSMENT:'')) text = Some (pre, rest) \<Longrightarrow> \<forall>j<length pre. \<not> marker_at text j"
  by (simp add: regex_search_Some marker_at_iff)

lemma cleanup_is_strip: "replace_cleanup (trim s) = strip_one_lead (trim s)"
  by (simp add: replace_cleanup_trim strip_one_lead_def)

lemma ci_prefix_length: "ci_prefix p s = Some r \<Longrightarrow> length s = length p + length r"
  by (induction p s rule: ci_prefix.induct) (auto split: if_splits)

lemma marker_at_end_search:
  assumes "text = pre @ mk" and "ci_equal (js ''ASSESSMENT:'') mk"
    and "\<forall>j<length pre. \<not> marker_at text j"
  shows "regex_search assessment_at text = None"
proof -
  have len: "length mk = length (js ''ASSESSMENT:'')"
    using assms(2) by (simp add: ci_equal_def list_all2_lengthD)
  have "assessment_at (drop i text) = None" for i
  proof (cases "ci_prefix (js ''ASSESSMENT:'') (drop i text)")
    case None
    then show ?thesis by (simp add: assessment_at_def)
  next
    case (Some r)
    then have "marker_at text i" by (simp add: marker_at_iff)
    then have ge: "\<not> i < length pre" using assms(3) by blast
    have a: "length text - i = length mk + length r"
      using ci_prefix_length[OF Some] len by simp
    have b: "length text = length pre + length mk" using assms(1) by simp
    from a b ge have "length r \<le> 0" by arith
    then have "r = []" by simp
    with Some show ?thesis by (simp add: assessment_at_def)
  qed
  then show ?thesis by (simp add: regex_search_None)
qed

lemma fallback_assessment:
  "regex_search assessment_at text = None \<Longrightarrow>
     assessment (parseAIResponse text) = strip_one_lead (trim (remove_rating text))"
  by (simp add: parseAIResponse_def cleanup_is_strip)

lemma remove_rating_none: "\<not> has_rating text \<Longrightarrow> remove_rating text = text"
  by (cases "regex_search rating_at text") (auto simp: has_rating_iff remove_rating_def)

lemma remove_rating_first: "first_rating text i d post \<Longrightarrow> remove_rating text = take i text @ post"
  using first_rating_search[of "text" i d post] by (simp add: remove_rating_def)

lemmas parser_eval = js_def rating_at_def assessment_at_def ci_unit_def Canonicalize_def is_space_def
  is_digit_def parseInt_def digit_value_def trim_def replace_cleanup_def cleanup_at_def remove_rating_def
  parseAIResponse_def parseGeminiResponse_def strip_one_lead_def ci_equal_def

section \<open>Properties of the extractors\<close>

subsection \<open>Images\<close>














subsection \<open>Title and price at the gate\<close>

lemma quoted_at_nonempty: "quoted_at lit s = Some v \<Longrightarrow> v \<noteq> []"
  by (auto simp: quoted_at_def split: option.splits if_splits)

lemma falsy_opt_get: "ToBoolean (opt_get v k) \<Longrightarrow> get v k = opt_get v k"
  by (auto simp: opt_get_def split: if_splits)

lemma title_truthy_iff: "ToBoolean (extractTitle html jsonLd) \<longleftrightarrow> extractTitle html jsonLd \<noteq> JNull"
proof (cases "ToBoolean (opt_get jsonLd (js ''name''))")
  case True
  then have "extractTitle html jsonLd = opt_get jsonLd (js ''name'')"
    by (simp add: extractTitle_def falsy_opt_get)
  with True show ?thesis by auto
next
  case False
  show ?thesis
  proof (cases "regex_search og_title_at html")
    case None
    with False show ?thesis by (simp add: extractTitle_def)
  next
    case (Some m)
    obtain pre v where m: "m = (pre, v)" by (cases m) auto
    from regex_search_suffix[OF Some[unfolded m]] have "v \<noteq> []"
      by (auto simp: og_title_at_def dest: quoted_at_nonempty)
    with False Some m show ?thesis by (simp add: extractTitle_def)
  qed
qed

lemma price_shape: "extractPrice html jsonLd = Inr p \<Longrightarrow> p = JNull \<or> (\<exists>s. p = JStr s)"
  by (auto simp: extractPrice_def Let_def split: if_splits sum.splits option.splits)

lemma price_falsy_iff:
  assumes "extractPrice html jsonLd = Inr p"
  shows "\<not> ToBoolean p \<longleftrightarrow> (p = JNull \<or> p = JStr [])"
  using price_shape[OF assms] by auto

lemma listing_of_html_gate:
  assumes "extractPrice html (parse_jsonLd w html) = Inr p"
    and "extractCondition html (parse_jsonLd w html) = Inr c"
  shows "listing_of_html w html u =
     (if extractTitle html (parse_jsonLd w html) = JNull \<and> (p = JNull \<or> p = JStr [])
      then Inl (Error (js ''Could not extract listing data. The listing may be unavailable.''))
      else Inr \<lparr> title = extractTitle html (parse_jsonLd w html),
                 brand = extractBrand html (parse_jsonLd w html),
                 price = p,
                 description = extractDescription html (parse_jsonLd w html),
                 condition = c,
                 images = extractImages html,
                 url = u \<rparr>)"
  using assms price_falsy_iff[OF assms(1)] title_truthy_iff[of html "parse_jsonLd w html"]
  by (simp add: listing_of_html_def Let_def)

lemmas pipeline_eval = js_def is_space_def is_digit_def
  handler_def fetchVintedListing_def listing_of_html_def parse_jsonLd_def script_at_def
  extractTitle_def extractBrand_def extractPrice_def extractDescription_def extractCondition_def
  extractImages_def og_title_at_def og_description_at_def quoted_at_def brand_at_def price_at_def
  image_at_def image_prefix_def url_unit_def image_matches.simps Set_values_def
  opt_get_def nullish_def or_else_def remove_literal_def listing_request_def
  analyzeWithGroq_def caught_def
  page_world_def demo_url_def demo_request_def title_page_def
  number_condition_json_def number_condition_value_def number_condition_page_def
  object_condition_json_def object_condition_value_def object_condition_page_def
  empty_price_json_def empty_price_value_def empty_price_page_def

section \<open>The claims about the response parser\<close>

text \<open>
  Claim C1.  For every reply text, both parsers return a rating that is an integer between
  1 and 5.  When the text has no place where \<^verbatim>\<open>RATING:\<close> (in any letter case), white space
  and a digit follow one another, the rating is 3.  Otherwise the digit of the first such
  place, clamped into the range by \<open>min\<close> and \<open>max\<close>, is the rating.
\<close>
theorem parsed_rating_in_range:
  "(\<exists>n. rating (parseAIResponse text) = Num n \<and> 1 \<le> n \<and> n \<le> 5) \<and>
   (\<not> has_rating text \<longrightarrow> rating (parseAIResponse text) = Num 3) \<and>
   (\<forall>i d post. first_rating text i d post \<longrightarrow>
      rating (parseAIResponse text) = Num (min 5 (max 1 (digit_value d)))) \<and>
   rating (parseGeminiResponse text) = rating (parseAIResponse text)"
  using rating_range[of "text"] rating_default[of "text"] rating_of_first[of "text"]
  by (simp add: parseGemini_eq)

theorem parsed_rating_in_range_witness:
  "\<not> has_rating (js ''Great coat'') \<and> rating (parseAIResponse (js ''Great coat'')) = Num 3 \<and>
   first_rating (js ''RATING: 7'') 0 0x37 [] \<and> rating (parseAIResponse (js ''RATING: 7'')) = Num 5 \<and>
   first_rating (js ''rating:0'') 0 0x30 [] \<and> rating (parseGeminiResponse (js ''rating:0'')) = Num 1"
proof -
  have a: "\<not> has_rating (js ''Great coat'')"
    by (simp add: has_rating_iff parser_eval)
  have b: "first_rating (js ''RATING: 7'') 0 0x37 []"
    by (simp add: first_rating_def rating_occurrence_iff parser_eval)
  have c: "first_rating (js ''rating:0'') 0 0x30 []"
    by (simp add: first_rating_def rating_occurrence_iff parser_eval)
  have "rating (parseAIResponse (js ''Great coat'')) = Num 3"
    using parsed_rating_in_range[of "js ''Great coat''"] a by blast
  moreover have "rating (parseAIResponse (js ''RATING: 7'')) = Num (min 5 (max 1 (digit_value 0x37)))"
    using parsed_rating_in_range[of "js ''RATING: 7''"] b by blast
  moreover have "rating (parseGeminiResponse (js ''rating:0'')) = Num (min 5 (max 1 (digit_value 0x30)))"
    using parsed_rating_in_range[of "js ''rating:0''"] c by metis
  ultimately show ?thesis using a b c by (simp add: digit_value_def)
qed

text \<open>
  Claim C10.  Only the first digit after the marker counts: when the first place of
  \<^verbatim>\<open>RATING:\<close>, white space and a digit \<open>d\<close> is followed by further digits \<open>ds\<close> (and any text
  \<open>post\<close>), the rating is the clamped value of \<open>d\<close> alone.  The reply \<^verbatim>\<open>RATING: 42\<close> is rated 4.
\<close>
theorem rating_first_digit_only:
  assumes "text = pre @ mk @ ws @ d # ds @ post"
    and "ci_equal (js ''RATING:'') mk" and "list_all is_space ws" and "is_digit d"
    and "list_all is_digit ds"
    and "\<forall>j<length pre. \<forall>d' post'. \<not> rating_occurrence text j d' post'"
  shows "rating (parseAIResponse text) = Num (min 5 (max 1 (digit_value d))) \<and>
         rating (parseGeminiResponse text) = Num (min 5 (max 1 (digit_value d)))"
proof -
  have "drop (length pre) text = mk @ ws @ d # (ds @ post)" using assms(1) by simp
  then have "rating_occurrence text (length pre) d (ds @ post)"
    using assms(2,3,4) unfolding rating_occurrence_def by blast
  then have "first_rating text (length pre) d (ds @ post)"
    using assms(6) by (simp add: first_rating_def)
  then show ?thesis using rating_of_first by (simp add: parseGemini_eq)
qed

theorem rating_first_digit_only_witness:
  "rating (parseAIResponse (js ''RATING: 42'')) = Num 4 \<and>
   rating (parseGeminiResponse (js ''RATING: 42'')) = Num 4"
proof -
  have "rating (parseAIResponse ([] @ js ''RATING:'' @ js '' '' @ 0x34 # js ''2'' @ [])) = Num (min 5 (max 1 (digit_value 0x34))) \<and>
        rating (parseGeminiResponse ([] @ js ''RATING:'' @ js '' '' @ 0x34 # js ''2'' @ [])) = Num (min 5 (max 1 (digit_value 0x34)))"
    by (rule rating_first_digit_only[where pre="[]" and mk="js ''RATING:''" and ws="js '' ''"
          and ds="js ''2''" and post="[]"]) (simp_all add: parser_eval)
  then show ?thesis by (simp add: digit_value_def js_def)
qed

text \<open>
  Claim C3, as the code has it.  For a reply text without an \<^verbatim>\<open>ASSESSMENT:\<close> marker the
  assessment is the text with the first place of \<^verbatim>\<open>RATING:\<close>, white space and a digit cut out
  (the text itself when there is no such place), trimmed, with one leading \<^verbatim>\<open>-\<close> or \<^verbatim>\<open>:\<close>
  and the white space after it removed.  Later places stay in the assessment.
\<close>
theorem fallback_removes_first_rating_only:
  assumes "\<not> has_marker text"
  shows "(\<not> has_rating text \<longrightarrow> assessment (parseAIResponse text) = strip_one_lead (trim text)) \<and>
         (\<forall>i d post. first_rating text i d post \<longrightarrow>
            assessment (parseAIResponse text) = strip_one_lead (trim (take i text @ post))) \<and>
         assessment (parseGeminiResponse text) = assessment (parseAIResponse text)"
proof -
  have n: "regex_search assessment_at text = None" using assms by (rule no_marker_search)
  have 1: "assessment (parseAIResponse text) = strip_one_lead (trim text)" if "\<not> has_rating text"
  proof -
    from that have "regex_search rating_at text = None" by (metis has_rating_iff)
    then show ?thesis using n by (simp add: parseAIResponse_def remove_rating_def cleanup_is_strip)
  qed
  have 2: "assessment (parseAIResponse text) = strip_one_lead (trim (take i text @ post))"
    if "first_rating text i d post" for i d post
    using first_rating_search[OF that] n
    by (simp add: parseAIResponse_def remove_rating_def cleanup_is_strip)
  show ?thesis using 1 2 by (simp add: parseGemini_eq)
qed

theorem fallback_removes_first_rating_only_witness:
  "\<not> has_marker (js ''RATING: 4 RATING: 5'') \<and> first_rating (js ''RATING: 4 RATING: 5'') 0 0x34 (js '' RATING: 5'') \<and>
   assessment (parseAIResponse (js ''RATING: 4 RATING: 5'')) = js ''RATING: 5'' \<and>
   \<not> has_marker (js '': Nice coat '') \<and> \<not> has_rating (js '': Nice coat '') \<and>
   assessment (parseAIResponse (js '': Nice coat '')) = js ''Nice coat''"
proof -
  have a: "\<not> has_marker (js ''RATING: 4 RATING: 5'')" by (simp add: has_marker_iff parser_eval)
  have b: "first_rating (js ''RATING: 4 RATING: 5'') 0 0x34 (js '' RATING: 5'')"
    by (simp add: first_rating_def rating_occurrence_iff parser_eval)
  have c: "\<not> has_marker (js '': Nice coat '')" by (simp add: has_marker_iff parser_eval)
  have d: "\<not> has_rating (js '': Nice coat '')" by (simp add: has_rating_iff parser_eval)
  have "assessment (parseAIResponse (js ''RATING: 4 RATING: 5'')) =
          strip_one_lead (trim (take 0 (js ''RATING: 4 RATING: 5'') @ js '' RATING: 5''))"
    using fallback_removes_first_rating_only[OF a] b by blast
  moreover have "assessment (parseAIResponse (js '': Nice coat '')) = strip_one_lead (trim (js '': Nice coat ''))"
    using fallback_removes_first_rating_only[OF c] d by blast
  ultimately show ?thesis using a b c d by (simp add: parser_eval)
qed

text \<open>
  The claim as stated asks for every such place to be removed.  The reply
  \<^verbatim>\<open>RATING: 4 RATING: 5\<close> has no marker, and its assessment is \<^verbatim>\<open>RATING: 5\<close>.
\<close>

theorem fallback_keeps_later_ratings_counterexample:
  "\<not> has_marker (js ''RATING: 4 RATING: 5'') \<and>
   assessment (parseAIResponse (js ''RATING: 4 RATING: 5'')) = js ''RATING: 5'' \<and>
   has_rating (assessment (parseAIResponse (js ''RATING: 4 RATING: 5'')))"
  by (simp add: has_marker_iff has_rating_iff parser_eval)

text \<open>
  Claim C4, as the code has it.  Let \<open>mk\<close> be the first \<^verbatim>\<open>ASSESSMENT:\<close> marker of the text (in
  any letter case) and \<open>rest\<close> the text after it.  When \<open>rest\<close> has one code unit at least,
  the assessment is \<open>rest\<close>, trimmed, with one leading \<^verbatim>\<open>-\<close> or \<^verbatim>\<open>:\<close> and the white space
  after it removed.  When the marker stands at the very end of the text, the pattern does not
  match and the assessment is the fallback: the whole text with the first place of
  \<^verbatim>\<open>RATING:\<close>, white space and a digit cut out (the text itself when there is no such place),
  trimmed, with one leading \<^verbatim>\<open>-\<close> or \<^verbatim>\<open>:\<close> and the white space after it removed.
\<close>

theorem marker_assessment:
  assumes "text = pre @ mk @ rest" and "ci_equal (js ''ASSESSMENT:'') mk"
    and "\<forall>j<length pre. \<not> marker_at text j"
  shows "(rest \<noteq> [] \<longrightarrow>
            assessment (parseAIResponse text) = strip_one_lead (trim rest) \<and>
            assessment (parseGeminiResponse text) = strip_one_lead (trim rest)) \<and>
         (rest = [] \<longrightarrow>
            assessment (parseAIResponse text) = strip_one_lead (trim (remove_rating text)) \<and>
            (\<not> has_rating text \<longrightarrow>
               assessment (parseAIResponse text) = strip_one_lead (trim text)) \<and>
            (\<forall>i d post. first_rating text i d post \<longrightarrow>
               assessment (parseAIResponse text) = strip_one_lead (trim (take i text @ post))) \<and>
            assessment (parseGeminiResponse text) = assessment (parseAIResponse text))"
proof (intro conjI impI)
  assume r: "rest \<noteq> []"
  from first_marker_search[OF assms r] obtain capture where
    c: "regex_search assessment_at text = Some (pre, capture)" "trim capture = trim rest" by blast
  then show "assessment (parseAIResponse text) = strip_one_lead (trim rest)"
    by (simp add: parseAIResponse_def cleanup_is_strip)
  from c show "assessment (parseGeminiResponse text) = strip_one_lead (trim rest)"
    by (simp add: parseGemini_eq parseAIResponse_def cleanup_is_strip)
next
  assume r: "rest = []"
  have n: "regex_search assessment_at text = None"
    using marker_at_end_search[of "text" pre mk] assms r by simp
  show f: "assessment (parseAIResponse text) = strip_one_lead (trim (remove_rating text))"
    using n by (rule fallback_assessment)
  show "assessment (parseAIResponse text) = strip_one_lead (trim text)" if "\<not> has_rating text"
    using f remove_rating_none[OF that] by simp
  show "\<forall>i d post. first_rating text i d post \<longrightarrow>
          assessment (parseAIResponse text) = strip_one_lead (trim (take i text @ post))"
    using f remove_rating_first by simp
  show "assessment (parseGeminiResponse text) = assessment (parseAIResponse text)"
    by (simp add: parseGemini_eq)
qed

theorem marker_assessment_witness:
  "assessment (parseAIResponse (js ''RATING: 7'' @ [0x0A] @ js ''ASSESSMENT: - Too pricey. '')) = js ''Too pricey.'' \<and>
   assessment (parseGeminiResponse (js ''RATING: 7'' @ [0x0A] @ js ''ASSESSMENT: - Too pricey. '')) = js ''Too pricey.'' \<and>
   first_rating (js ''RATING: 2 assessment:'') 0 0x32 (js '' assessment:'') \<and>
   assessment (parseAIResponse (js ''RATING: 2 assessment:'')) = js ''assessment:'' \<and>
   assessment (parseGeminiResponse (js ''RATING: 2 assessment:'')) = js ''assessment:'' \<and>
   \<not> has_rating (js ''Good ASSESSMENT:'') \<and>
   assessment (parseAIResponse (js ''Good ASSESSMENT:'')) = js ''Good ASSESSMENT:''"
proof -
  let ?p = "js ''RATING: 2 ''"
  let ?m = "js ''assessment:''"
  let ?t = "?p @ ?m @ []"
  have "regex_search (ci_prefix (js ''ASSESSMENT:'')) ?t = Some (?p, [])"
    by (simp add: parser_eval)
  then have e1: "\<forall>j<length ?p. \<not> marker_at ?t j" by (rule search_no_earlier_marker)
  have e2: "ci_equal (js ''ASSESSMENT:'') ?m" by (simp add: parser_eval)
  have e3: "first_rating ?t 0 0x32 (js '' assessment:'')"
    by (simp add: first_rating_def rating_occurrence_iff parser_eval)
  have e4: "assessment (parseAIResponse ?t) = strip_one_lead (trim (take 0 ?t @ js '' assessment:''))"
    and e5: "assessment (parseGeminiResponse ?t) = assessment (parseAIResponse ?t)"
    using marker_assessment[OF refl e2 e1] e3 by blast+
  have e6: "strip_one_lead (trim (take 0 ?t @ js '' assessment:'')) = js ''assessment:''"
    by (simp add: parser_eval)
  have e7: "?t = js ''RATING: 2 assessment:''" by (simp add: js_def)
  let ?q = "js ''Good ''"
  let ?u = "?q @ js ''ASSESSMENT:'' @ []"
  have "regex_search (ci_prefix (js ''ASSESSMENT:'')) ?u = Some (?q, [])"
    by (simp add: parser_eval)
  then have g1: "\<forall>j<length ?q. \<not> marker_at ?u j" by (rule search_no_earlier_marker)
  have g2: "ci_equal (js ''ASSESSMENT:'') (js ''ASSESSMENT:'')" by (simp add: parser_eval)
  have g3: "\<not> has_rating ?u" by (simp add: has_rating_iff parser_eval)
  have g4: "assessment (parseAIResponse ?u) = strip_one_lead (trim ?u)"
    using marker_assessment[OF refl g2 g1] g3 by blast
  have g5: "strip_one_lead (trim ?u) = js ''Good ASSESSMENT:''" by (simp add: parser_eval)
  have g6: "?u = js ''Good ASSESSMENT:''" by (simp add: js_def)
  have end_case: "first_rating (js ''RATING: 2 assessment:'') 0 0x32 (js '' assessment:'') \<and>
     assessment (parseAIResponse (js ''RATING: 2 assessment:'')) = js ''assessment:'' \<and>
     assessment (parseGeminiResponse (js ''RATING: 2 assessment:'')) = js ''assessment:'' \<and>
     \<not> has_rating (js ''Good ASSESSMENT:'') \<and>
     assessment (parseAIResponse (js ''Good ASSESSMENT:'')) = js ''Good ASSESSMENT:''"
    using e3 e4 e5 e6 e7 g3 g4 g5 g6 by simp
  let ?pre = "js ''RATING: 7'' @ [0x0A]"
  let ?rest = "js '' - Too pricey. ''"
  let ?text = "?pre @ js ''ASSESSMENT:'' @ ?rest"
  have "regex_search (ci_prefix (js ''ASSESSMENT:'')) ?text = Some (?pre, ?rest)"
    by (simp add: parser_eval)
  then have a: "\<forall>j<length ?pre. \<not> marker_at ?text j" by (rule search_no_earlier_marker)
  have b: "ci_equal (js ''ASSESSMENT:'') (js ''ASSESSMENT:'')" by (simp add: parser_eval)
  have c: "?rest \<noteq> []" by (simp add: js_def)
  have "assessment (parseAIResponse ?text) = strip_one_lead (trim ?rest) \<and>
        assessment (parseGeminiResponse ?text) = strip_one_lead (trim ?rest)"
    using marker_assessment[OF refl b a] c by blast
  moreover have "strip_one_lead (trim ?rest) = js ''Too pricey.''" by (simp add: parser_eval)
  moreover have "?text = js ''RATING: 7'' @ [0x0A] @ js ''ASSESSMENT: - Too pricey. ''" by (simp add: js_def)
  ultimately show ?thesis using end_case by simp
qed

text \<open>
  A marker at the very end of the text is no match of the pattern, whose group needs one
  code unit: the reply \<^verbatim>\<open>Good ASSESSMENT:\<close> has the marker at index 5 and nothing after it,
  and its assessment is the whole text, not the empty text after the marker.
\<close>

theorem marker_at_end_counterexample:
  "marker_at (js ''Good ASSESSMENT:'') 5 \<and> drop (5 + length (js ''ASSESSMENT:'')) (js ''Good ASSESSMENT:'') = [] \<and>
   assessment (parseAIResponse (js ''Good ASSESSMENT:'')) = js ''Good ASSESSMENT:''"
  by (simp add: marker_at_iff parser_eval)

text \<open>
  Claim C5, as the code has it.  The assessment of every reply text is trimmed: trimming it
  again changes nothing.  It can be empty.
\<close>
theorem assessment_is_trimmed:
  "trim (assessment (parseAIResponse text)) = assessment (parseAIResponse text) \<and>
   trim (assessment (parseGeminiResponse text)) = assessment (parseGeminiResponse text)"
  by (simp add: parseGemini_eq assessment_trimmed)

text \<open>The non-empty reply \<^verbatim>\<open>RATING: 3\<close> has the empty assessment.\<close>

theorem assessment_empty_counterexample:
  "js ''RATING: 3'' \<noteq> [] \<and> assessment (parseAIResponse (js ''RATING: 3'')) = []"
  by (simp add: parser_eval)

section \<open>The claim about the image list\<close>




section \<open>The claims about fetching, extraction and the handler\<close>

text \<open>
  Claim C2, as the code has it.  When the page is fetched with a success status and neither
  the price nor the condition extractor throws, \<open>fetchVintedListing\<close> fails with the
  extraction error exactly when the extracted title is \<^verbatim>\<open>null\<close> and the extracted price is
  \<^verbatim>\<open>null\<close> or the empty string; in every other case it returns the listing with the extracted
  values, whatever brand, description, condition and images are.
\<close>

theorem listing_gate:
  assumes "fetch w (listing_request u) = Inr response" and "resp_ok response"
    and "html = resp_text response" and "jsonLd = parse_jsonLd w html"
    and "extractPrice html jsonLd = Inr p" and "extractCondition html jsonLd = Inr c"
  shows "(snd (fetchVintedListing w u) =
            Inl (Error (js ''Could not extract listing data. The listing may be unavailable.''))
          \<longleftrightarrow> extractTitle html jsonLd = JNull \<and> (p = JNull \<or> p = JStr [])) \<and>
         (\<not> (extractTitle html jsonLd = JNull \<and> (p = JNull \<or> p = JStr [])) \<longrightarrow>
          snd (fetchVintedListing w u) =
            Inr \<lparr> title = extractTitle html jsonLd, brand = extractBrand html jsonLd, price = p,
                  description = extractDescription html jsonLd, condition = c,
                  images = extractImages html, url = u \<rparr>)"
proof -
  have "snd (fetchVintedListing w u) = listing_of_html w html u"
    using assms(1,2,3) by (simp add: fetchVintedListing_def)
  then show ?thesis
    using listing_of_html_gate[of html w p c u] assms(4,5,6) by simp
qed

theorem listing_gate_witness:
  "snd (fetchVintedListing (page_world None 200 title_page []) demo_url) =
     Inr \<lparr> title = JStr (js ''Wool Coat''), brand = JNull, price = JNull, description = JNull,
           condition = JNull, images = [], url = demo_url \<rparr> \<and>
   snd (fetchVintedListing (page_world None 200 (js ''<html></html>'') []) demo_url) =
     Inl (Error (js ''Could not extract listing data. The listing may be unavailable.''))"
proof -
  let ?w = "page_world None 200 title_page []"
  let ?r = "\<lparr> resp_ok = True, resp_status = 200, resp_text = title_page \<rparr>"
  have 1: "fetch ?w (listing_request demo_url) = Inr ?r" by (simp add: page_world_def)
  have 2: "resp_ok ?r" by simp
  have 3: "parse_jsonLd ?w title_page = JNull" by (simp add: pipeline_eval)
  have 4: "extractPrice title_page JNull = Inr JNull" by (simp add: pipeline_eval)
  have 5: "extractCondition title_page JNull = Inr JNull" by (simp add: pipeline_eval)
  have 6: "extractTitle title_page JNull = JStr (js ''Wool Coat'')" by (simp add: pipeline_eval)
  have 7: "extractBrand title_page JNull = JNull" by (simp add: pipeline_eval)
  have 8: "extractDescription title_page JNull = JNull" by (simp add: pipeline_eval)
  have 9: "extractImages title_page = []" by (simp add: pipeline_eval)
  have a: "snd (fetchVintedListing ?w demo_url) =
     Inr \<lparr> title = JStr (js ''Wool Coat''), brand = JNull, price = JNull, description = JNull,
           condition = JNull, images = [], url = demo_url \<rparr>"
    using listing_gate[OF 1 2, of title_page JNull JNull JNull] 3 4 5 6 7 8 9 by simp
  let ?v = "page_world None 200 (js ''<html></html>'') []"
  let ?s = "\<lparr> resp_ok = True, resp_status = 200, resp_text = js ''<html></html>'' \<rparr>"
  have 11: "fetch ?v (listing_request demo_url) = Inr ?s" by (simp add: page_world_def)
  have 12: "resp_ok ?s" by simp
  have 13: "parse_jsonLd ?v (js ''<html></html>'') = JNull" by (simp add: pipeline_eval)
  have 14: "extractPrice (js ''<html></html>'') JNull = Inr JNull" by (simp add: pipeline_eval)
  have 15: "extractCondition (js ''<html></html>'') JNull = Inr JNull" by (simp add: pipeline_eval)
  have 16: "extractTitle (js ''<html></html>'') JNull = JNull" by (simp add: pipeline_eval)
  have b: "snd (fetchVintedListing ?v demo_url) =
     Inl (Error (js ''Could not extract listing data. The listing may be unavailable.''))"
    using listing_gate[OF 11 12, of "js ''<html></html>''" JNull JNull JNull] 13 14 15 16 by simp
  from a b show ?thesis by simp
qed

text \<open>
  The claim as stated fails twice.  With the structured data
  \<^verbatim>\<open>{"name":"Coat","itemCondition":{"@type":"OfferItemCondition"}}\<close> the title is present,
  and the function neither returns the listing nor throws the extraction error: the condition
  extractor throws a TypeError.  With \<^verbatim>\<open>{"offers":{"price":[],"priceCurrency":[]}}\<close> the
  extracted price is a string, the empty one, which the gate takes for missing.
\<close>

theorem listing_gate_counterexample:
  "extractTitle object_condition_page object_condition_value = JStr (js ''Coat'') \<and>
   snd (fetchVintedListing
          (page_world None 200 object_condition_page [(object_condition_json, object_condition_value)])
          demo_url) =
     Inl (TypeError (js ''jsonLd.itemCondition.replace is not a function'')) \<and>
   extractPrice empty_price_page empty_price_value = Inr (JStr []) \<and>
   snd (fetchVintedListing
          (page_world None 200 empty_price_page [(empty_price_json, empty_price_value)])
          demo_url) =
     Inl (Error (js ''Could not extract listing data. The listing may be unavailable.''))"
  by (simp add: pipeline_eval)

text \<open>
  Claim C7 fails on the code.  For a page whose structured data is
  \<^verbatim>\<open>{"name":"Coat","itemCondition":1}\<close> the block parses, \<open>extractCondition\<close> throws a
  TypeError, \<open>fetchVintedListing\<close> throws it on, and the handler answers 500 with its message.
\<close>

theorem extractCondition_throws_on_number:
  "parse_jsonLd (page_world (Some (js ''key'')) 200 number_condition_page
                   [(number_condition_json, number_condition_value)]) number_condition_page
     = number_condition_value \<and>
   extractCondition number_condition_page number_condition_value =
     Inl (TypeError (js ''jsonLd.itemCondition.replace is not a function'')) \<and>
   snd (fetchVintedListing
          (page_world (Some (js ''key'')) 200 number_condition_page
             [(number_condition_json, number_condition_value)]) demo_url) =
     Inl (TypeError (js ''jsonLd.itemCondition.replace is not a function'')) \<and>
   snd (handler
          (page_world (Some (js ''key'')) 200 number_condition_page
             [(number_condition_json, number_condition_value)]) demo_request) =
     Responded 500 (ErrorBody (js ''jsonLd.itemCondition.replace is not a function''))"
  by (simp add: pipeline_eval)

text \<open>
  Claim C8, as the code has it.  For a POST request with a truthy \<^verbatim>\<open>url\<close>, when the GET of the
  listing is answered with a status that is not a success, the handler has made that one call
  and answers 500 with the error \<^verbatim>\<open>Failed to fetch Vinted listing\<close>.
\<close>

theorem fetch_failure_reply:
  assumes "http_method req = js ''POST''" and "\<not> nullish (http_body req)"
    and "u = get (http_body req) (js ''url'')" and "ToBoolean u"
    and "fetch w (listing_request u) = Inr response" and "\<not> resp_ok response"
  shows "handler w req =
           ([listing_request u], Responded 500 (ErrorBody (js ''Failed to fetch Vinted listing'')))"
proof -
  have "fetchVintedListing w u = ([listing_request u], Inl (Error (js ''Failed to fetch Vinted listing'')))"
    using assms(5,6) by (simp add: fetchVintedListing_def)
  moreover have "js ''Failed to fetch Vinted listing'' \<noteq> []" by (simp add: js_def)
  ultimately show ?thesis
    using assms(1,2,3,4) by (simp add: handler_def caught_def Let_def)
qed

theorem fetch_failure_reply_witness:
  "handler (page_world (Some (js ''key'')) 404 (js ''Not Found'') []) demo_request =
     ([listing_request demo_url], Responded 500 (ErrorBody (js ''Failed to fetch Vinted listing'')))"
proof -
  let ?w = "page_world (Some (js ''key'')) 404 (js ''Not Found'') []"
  let ?r = "\<lparr> resp_ok = False, resp_status = 404, resp_text = js ''Not Found'' \<rparr>"
  have 1: "http_method demo_request = js ''POST''" by (simp add: demo_request_def)
  have 2: "\<not> nullish (http_body demo_request)" by (simp add: demo_request_def nullish_def)
  have 3: "demo_url = get (http_body demo_request) (js ''url'')" by (simp add: demo_request_def)
  have 4: "ToBoolean demo_url" by (simp add: demo_url_def js_def)
  have 5: "fetch ?w (listing_request demo_url) = Inr ?r" by (simp add: page_world_def)
  have 6: "\<not> resp_ok ?r" by simp
  show ?thesis using fetch_failure_reply[OF 1 2 3 4 5 6] .
qed

text \<open>The error field is not the text \<^verbatim>\<open>Failed to fetch listing\<close> of the claim.\<close>

theorem fetch_failure_message_counterexample:
  "snd (handler (page_world (Some (js ''key'')) 404 (js ''Not Found'') []) demo_request) =
     Responded 500 (ErrorBody (js ''Failed to fetch Vinted listing'')) \<and>
   snd (handler (page_world (Some (js ''key'')) 404 (js ''Not Found'') []) demo_request) \<noteq>
     Responded 500 (ErrorBody (js ''Failed to fetch listing''))"
  by (simp add: pipeline_eval)

text \<open>
  Claim C6, as the code has it (Groq variant).  For a POST request with a truthy \<^verbatim>\<open>url\<close>, when
  \<^verbatim>\<open>GROQ_API_KEY\<close> is unset or empty, the handler makes exactly one outbound call, the GET of
  the listing page, and none to the model provider; it answers 500; when the listing was
  fetched and extracted, the error is \<^verbatim>\<open>GROQ_API_KEY environment variable not set\<close>; and when
  fetching or extracting the listing failed with an error \<open>e\<close>, the error is the message of \<open>e\<close>,
  or \<^verbatim>\<open>Failed to analyze listing\<close> when that message is empty.
\<close>

theorem missing_key_reply:
  assumes "http_method req = js ''POST''" and "\<not> nullish (http_body req)"
    and "u = get (http_body req) (js ''url'')" and "ToBoolean u"
    and "GROQ_API_KEY w = None \<or> GROQ_API_KEY w = Some []"
  shows "fst (handler w req) = [listing_request u] \<and>
         (\<exists>m. snd (handler w req) = Responded 500 (ErrorBody m)) \<and>
         (\<forall>listing. snd (fetchVintedListing w u) = Inr listing \<longrightarrow>
            snd (handler w req) =
              Responded 500 (ErrorBody (js ''GROQ_API_KEY environment variable not set''))) \<and>
         (\<forall>e. snd (fetchVintedListing w u) = Inl e \<longrightarrow>
            snd (handler w req) =
              Responded 500 (ErrorBody (if message e \<noteq> [] then message e
                                        else js ''Failed to analyze listing'')))"
proof -
  have k: "analyzeWithGroq w listing =
             ([], Inl (Error (js ''GROQ_API_KEY environment variable not set'')))" for listing
    using assms(5) by (auto simp: analyzeWithGroq_def)
  have f: "fst (fetchVintedListing w u) = [listing_request u]"
    by (simp add: fetchVintedListing_def)
  have n: "js ''GROQ_API_KEY environment variable not set'' \<noteq> []" by (simp add: js_def)
  show ?thesis
  proof (cases "snd (fetchVintedListing w u)")
    case (Inl e)
    then have "fetchVintedListing w u = ([listing_request u], Inl e)"
      using f by (metis prod.collapse)
    then show ?thesis
      using assms(1,2,3,4) Inl by (simp add: handler_def caught_def Let_def)
  next
    case (Inr listing)
    then have "fetchVintedListing w u = ([listing_request u], Inr listing)"
      using f by (metis prod.collapse)
    then show ?thesis
      using assms(1,2,3,4) Inr k n by (simp add: handler_def caught_def Let_def)
  qed
qed

theorem missing_key_reply_witness:
  "handler (page_world None 200 title_page []) demo_request =
     ([listing_request demo_url],
      Responded 500 (ErrorBody (js ''GROQ_API_KEY environment variable not set''))) \<and>
   snd (fetchVintedListing (page_world None 404 (js ''Not Found'') []) demo_url) =
     Inl (Error (js ''Failed to fetch Vinted listing'')) \<and>
   snd (handler (page_world None 404 (js ''Not Found'') []) demo_request) =
     Responded 500 (ErrorBody (js ''Failed to fetch Vinted listing''))"
proof -
  let ?v = "page_world None 404 (js ''Not Found'') []"
  have v5: "GROQ_API_KEY ?v = None \<or> GROQ_API_KEY ?v = Some []" by (simp add: page_world_def)
  have v6: "snd (fetchVintedListing ?v demo_url) = Inl (Error (js ''Failed to fetch Vinted listing''))"
    by (simp add: pipeline_eval)
  let ?w = "page_world None 200 title_page []"
  have 1: "http_method demo_request = js ''POST''" by (simp add: demo_request_def)
  have 2: "\<not> nullish (http_body demo_request)" by (simp add: demo_request_def nullish_def)
  have 3: "demo_url = get (http_body demo_request) (js ''url'')" by (simp add: demo_request_def)
  have 4: "ToBoolean demo_url" by (simp add: demo_url_def js_def)
  have 5: "GROQ_API_KEY ?w = None \<or> GROQ_API_KEY ?w = Some []" by (simp add: page_world_def)
  have 6: "snd (fetchVintedListing ?w demo_url) =
     Inr \<lparr> title = JStr (js ''Wool Coat''), brand = JNull, price = JNull, description = JNull,
           condition = JNull, images = [], url = demo_url \<rparr>"
    by (simp add: pipeline_eval)
  from missing_key_reply[OF 1 2 3 4 5] 6
  have "fst (handler ?w demo_request) = [listing_request demo_url]"
    and "snd (handler ?w demo_request) =
           Responded 500 (ErrorBody (js ''GROQ_API_KEY environment variable not set''))"
    by blast+
  then have a: "handler ?w demo_request =
     ([listing_request demo_url],
      Responded 500 (ErrorBody (js ''GROQ_API_KEY environment variable not set'')))"
    by (metis prod.collapse)
  from missing_key_reply[OF 1 2 3 4 v5] v6
  have "snd (handler ?v demo_request) =
          Responded 500 (ErrorBody (if message (Error (js ''Failed to fetch Vinted listing'')) \<noteq> []
                                    then message (Error (js ''Failed to fetch Vinted listing''))
                                    else js ''Failed to analyze listing''))"
    by blast
  then have b: "snd (handler ?v demo_request) =
          Responded 500 (ErrorBody (js ''Failed to fetch Vinted listing''))"
    by (simp add: js_def)
  from a v6 b show ?thesis by simp
qed

text \<open>
  The claim as stated asks for the failure before any outbound call.  Without a key the
  handler has fetched the listing page when it reports the missing key; and when that fetch
  is answered 404, the missing key is not reported at all.
\<close>

theorem missing_key_after_fetch_counterexample:
  "handler (page_world None 200 title_page []) demo_request =
     ([listing_request demo_url],
      Responded 500 (ErrorBody (js ''GROQ_API_KEY environment variable not set''))) \<and>
   handler (page_world None 404 (js ''Not Found'') []) demo_request =
     ([listing_request demo_url],
      Responded 500 (ErrorBody (js ''Failed to fetch Vinted listing'')))"
  by (simp add: pipeline_eval)


end
